theory Spec2Isabelle
  imports Complex_Main
begin

section \<open>Arrays, scalars and broadcasting\<close>

text \<open>
  The Python sources compute on numpy arrays of 64-bit floats. A one-dimensional array is
  a list here, and a float is an exact \<^typ>\<open>real\<close> (a refractive index a
  \<^typ>\<open>complex\<close>): rounding, overflow and the special values inf and nan are outside
  this development, so a statement about a formula is a statement about the formula in exact
  arithmetic, and it speaks about the program wherever no operation of the program leaves the
  domain on which HOL's total operation and the float operation agree (no division by zero,
  no fractional power of a negative number).

  An argument that the interface accepts either as a scalar or as an array is an
  \<open>arg\<close>. The two failures of the interface are the explicit \<^verbatim>\<open>raise AttributeError\<close>
  of \<^verbatim>\<open>_prepare_input\<close> (\<open>MissingConfiguration\<close>) and the error numpy raises
  when two arrays cannot be broadcast together (\<open>DimensionMismatch\<close>).
\<close>

datatype error = MissingConfiguration | DimensionMismatch

datatype 'a arg = Scalar 'a | Array "'a list"

text \<open>\<^verbatim>\<open>np.asarray([x]) if np.isscalar(x) else np.asarray(x)\<close>\<close>

definition convert_to_array :: "'a arg \<Rightarrow> 'a list" where
  "convert_to_array x = (case x of Scalar v \<Rightarrow> [v] | Array xs \<Rightarrow> xs)"

definition ones_like :: "'b list \<Rightarrow> 'a::one list" where
  "ones_like xs = map (\<lambda>_. 1) xs"

text \<open>
  An elementwise binary operation of numpy on two one-dimensional arrays: equal lengths
  combine pointwise, an array of length one is stretched to the length of the other, and
  any other pair of lengths raises.
\<close>

definition np_binop :: "('a \<Rightarrow> 'b \<Rightarrow> 'c) \<Rightarrow> 'a list \<Rightarrow> 'b list \<Rightarrow> error + 'c list" where
  "np_binop f xs ys =
     (if length xs = length ys then Inr (map2 f xs ys)
      else if length xs = 1 then Inr (map (f (hd xs)) ys)
      else if length ys = 1 then Inr (map (\<lambda>x. f x (hd ys)) xs)
      else Inl DimensionMismatch)"

text \<open>\<^verbatim>\<open>x*np.ones_like(diameters)\<close> for a scalar or array \<^verbatim>\<open>x\<close>.\<close>

definition np_mul :: "'a::times arg \<Rightarrow> 'a list \<Rightarrow> error + 'a list" where
  "np_mul x ys =
     (case x of Scalar s \<Rightarrow> Inr (map (\<lambda>y. s * y) ys)
              | Array xs \<Rightarrow> np_binop (*) xs ys)"

definition bind_err :: "error + 'a \<Rightarrow> ('a \<Rightarrow> error + 'b) \<Rightarrow> error + 'b" where
  "bind_err r f = (case r of Inl e \<Rightarrow> Inl e | Inr v \<Rightarrow> f v)"

section \<open>The scattering interface\<close>

text \<open>
  \<^verbatim>\<open>_compute_effective_size\<close>:
  \<^verbatim>\<open>size/np.sqrt(np.sin(angle)**2+(np.cos(angle)/ar)**2)\<close>, on one particle, and on the
  arrays \<^verbatim>\<open>diameters\<close> and \<^verbatim>\<open>alpha_eff\<close> with the scalar angle of
  \<^verbatim>\<open>_prepare_input\<close>.
\<close>

definition compute_effective_size :: "real \<Rightarrow> real \<Rightarrow> real \<Rightarrow> real" where
  "compute_effective_size size' ar angle = size' / sqrt ((sin angle)\<^sup>2 + (cos angle / ar)\<^sup>2)"

definition compute_effective_size_arr :: "real list \<Rightarrow> real list \<Rightarrow> real \<Rightarrow> error + real list" where
  "compute_effective_size_arr size' ar angle =
     np_binop (\<lambda>s a. compute_effective_size s a angle) size' ar"

text \<open>
  The names \<^verbatim>\<open>_compute.py\<close> imports and does not define: the property database
  \<^verbatim>\<open>snowLibrary\<close> (nine arrays for a diameter array and a label), the refractive index
  model \<^verbatim>\<open>ice.n\<close>, the kernel functions \<^verbatim>\<open>hexPrismK\<close>, \<^verbatim>\<open>ssrga\<close> and
  \<^verbatim>\<open>ssrgaBack\<close>, and the constants \<^verbatim>\<open>_c\<close> and \<^verbatim>\<open>_ice_density\<close>. They are
  parameters of the model, collected in one record; the results of \<^verbatim>\<open>snowLibrary\<close>
  and \<^verbatim>\<open>ssrga\<close> are tuples, read by position as the source does.
\<close>

type_synonym lookup =
  "real list \<times> real list \<times> real list \<times> real list \<times> real list \<times> real list
   \<times> real list \<times> real list \<times> real list"

type_synonym scattering =
  "real list \<times> real list \<times> real list \<times> real list \<times> real list \<times> real list list"

record externals =
  snowLibrary :: "real list \<Rightarrow> string \<Rightarrow> lookup"
  ice_n :: "real list \<Rightarrow> real list \<Rightarrow> bool \<Rightarrow> complex list"
  hexPrismK :: "complex list \<Rightarrow> real list \<Rightarrow> complex list"
  ssrga :: "real list \<Rightarrow> real list \<Rightarrow> real list \<Rightarrow> complex list \<Rightarrow>
            real list \<Rightarrow> real list \<Rightarrow> real list \<Rightarrow> real list \<Rightarrow> int \<Rightarrow> scattering"
  ssrgaBack :: "real list \<Rightarrow> real list \<Rightarrow> real list \<Rightarrow> complex list \<Rightarrow>
            real list \<Rightarrow> real list \<Rightarrow> real list \<Rightarrow> real list \<Rightarrow> real list"
  const_c :: real
  const_ice_density :: real

text \<open>
  The tuple \<^verbatim>\<open>_prepare_input\<close> returns:
  \<^verbatim>\<open>Deff, Vol, wavelength, K, kappa, gamma, beta, zeta1, mass_prop, vel, area\<close>.
\<close>

type_synonym prepared =
  "real list \<times> real list \<times> real list \<times> complex list \<times> real list \<times> real list
   \<times> real list \<times> real list \<times> real list \<times> real list \<times> real list"

definition prepare_input ::
  "externals \<Rightarrow> real arg \<Rightarrow> real arg \<Rightarrow> string \<Rightarrow> complex arg option \<Rightarrow>
   real arg option \<Rightarrow> real arg option \<Rightarrow> real \<Rightarrow> error + prepared" where
  "prepare_input E diameters wavelength properties ref_index temperature mass theta =
    (let diameters = convert_to_array diameters in
     bind_err (np_mul wavelength (ones_like diameters)) (\<lambda>wavelength.
     bind_err
       (case ref_index of
          None \<Rightarrow>
            (case temperature of
               None \<Rightarrow> Inl MissingConfiguration
             | Some temperature \<Rightarrow>
                 bind_err (np_mul temperature (ones_like diameters)) (\<lambda>temperature.
                 Inr (ice_n E temperature (map (\<lambda>w. const_c E / w) wavelength) True)))
        | Some ref_index \<Rightarrow> np_mul ref_index (ones_like diameters)) (\<lambda>ref_index.
     case snowLibrary E diameters properties of
       (kappa, beta, gamma, zeta1, alpha_eff, ar_mono, mass_prop, vel, area) \<Rightarrow>
     bind_err
       (case mass of
          None \<Rightarrow> Inr mass_prop
        | Some mass \<Rightarrow> np_mul mass (ones_like diameters)) (\<lambda>mass.
     let Vol = map (\<lambda>m. m / const_ice_density E) mass;
         K = hexPrismK E ref_index ar_mono
     in
     bind_err (compute_effective_size_arr diameters alpha_eff theta) (\<lambda>Deff.
     Inr (Deff, Vol, wavelength, K, kappa, gamma, beta, zeta1, mass_prop, vel, area))))))"

definition calcProperties ::
  "externals \<Rightarrow> real arg \<Rightarrow> real arg \<Rightarrow> string \<Rightarrow> complex arg option \<Rightarrow>
   real arg option \<Rightarrow> real arg option \<Rightarrow> real \<Rightarrow> int \<Rightarrow>
   error + (real list \<times> real list \<times> real list \<times> real list \<times> real list \<times> real list list
            \<times> real list \<times> real list \<times> real list)" where
  "calcProperties E diameters wavelength properties ref_index temperature mass theta Nangles =
    bind_err (prepare_input E diameters wavelength properties ref_index temperature mass theta)
      (\<lambda>(Deff, Vol, wavelength, K, kappa, gamma, beta, zeta1, mass_prop, vel, area).
         case ssrga E Deff Vol wavelength K kappa gamma beta zeta1 Nangles of
           (Cext, Cabs, Csca, Cbck, asym', phase) \<Rightarrow>
             Inr (Cext, Cabs, Csca, Cbck, asym', phase, mass_prop, vel, area))"

definition backscatter ::
  "externals \<Rightarrow> real arg \<Rightarrow> real arg \<Rightarrow> string \<Rightarrow> complex arg option \<Rightarrow>
   real arg option \<Rightarrow> real arg option \<Rightarrow> real \<Rightarrow> error + real list" where
  "backscatter E diameters wavelength properties ref_index temperature mass theta =
    bind_err (prepare_input E diameters wavelength properties ref_index temperature mass theta)
      (\<lambda>(Deff, Vol, wavelength, K, kappa, gamma, beta, zeta1, mass_prop, vel, area).
         Inr (ssrgaBack E Deff Vol wavelength K kappa gamma beta zeta1))"

definition backscatVel ::
  "externals \<Rightarrow> real arg \<Rightarrow> real arg \<Rightarrow> string \<Rightarrow> complex arg option \<Rightarrow>
   real arg option \<Rightarrow> real arg option \<Rightarrow> real \<Rightarrow> error + (real list \<times> real list)" where
  "backscatVel E diameters wavelength properties ref_index temperature mass theta =
    bind_err (prepare_input E diameters wavelength properties ref_index temperature mass theta)
      (\<lambda>(Deff, Vol, wavelength, K, kappa, gamma, beta, zeta1, mass_prop, vel, area).
         Inr (ssrgaBack E Deff Vol wavelength K kappa gamma beta zeta1, vel))"

definition snowMassVelocityArea ::
  "externals \<Rightarrow> real arg \<Rightarrow> string \<Rightarrow> real list \<times> real list \<times> real list" where
  "snowMassVelocityArea E diameters properties =
    (let diameters = convert_to_array diameters in
     case snowLibrary E diameters properties of
       (_, _, _, _, _, _, mass, vel, area) \<Rightarrow> (mass, vel, area))"

text \<open>Reading the results by position.\<close>

definition lookup_ssrga :: "lookup \<Rightarrow> real list \<times> real list \<times> real list \<times> real list" where
  "lookup_ssrga l = (case l of (c1, c2, c3, c4, _) \<Rightarrow> (c1, c2, c3, c4))"

definition lookup_mass :: "lookup \<Rightarrow> real list" where
  "lookup_mass l = (case l of (_, _, _, _, _, _, mass, vel, area) \<Rightarrow> mass)"

definition prepared_ssrga :: "prepared \<Rightarrow> real list \<times> real list \<times> real list \<times> real list" where
  "prepared_ssrga r =
     (case r of (Deff, Vol, wavelength, K, kappa, gamma, beta, zeta1, _) \<Rightarrow>
        (kappa, gamma, beta, zeta1))"

definition Cbck_of :: "scattering \<Rightarrow> real list" where
  "Cbck_of r = (case r of (Cext, Cabs, Csca, Cbck, asym', phase) \<Rightarrow> Cbck)"

definition calcProperties_Cbck ::
  "real list \<times> real list \<times> real list \<times> real list \<times> real list \<times> real list list
   \<times> real list \<times> real list \<times> real list \<Rightarrow> real list" where
  "calcProperties_Cbck r =
     (case r of (Cext, Cabs, Csca, Cbck, asym', phase, mass_prop, vel, area) \<Rightarrow> Cbck)"

text \<open>
  The statement that the four structure parameters a call returns are the first four
  components of the lookup, position by position (true where the call fails).
\<close>

definition ssrga_params_in_lookup_order ::
  "externals \<Rightarrow> real arg \<Rightarrow> real arg \<Rightarrow> string \<Rightarrow> complex arg option \<Rightarrow>
   real arg option \<Rightarrow> real arg option \<Rightarrow> real \<Rightarrow> bool" where
  "ssrga_params_in_lookup_order E diameters wavelength properties ref_index temperature mass theta =
     (case prepare_input E diameters wavelength properties ref_index temperature mass theta of
        Inl e \<Rightarrow> True
      | Inr r \<Rightarrow> prepared_ssrga r =
                 lookup_ssrga (snowLibrary E (convert_to_array diameters) properties))"

text \<open>
  Modelled from the spec: the native scattering kernel behind \<^verbatim>\<open>ssrga\<close> and
  \<^verbatim>\<open>ssrgaBack\<close> is not among the sources. The spec describes it as exposing a full
  solve (effective diameter, volume, wavelength, K, kappa, gamma, beta, zeta1, angle count to
  cross sections, asymmetry, phase function) and a backscatter-only solve (the same inputs
  minus the angle count, to the backscatter cross section only). A kernel is consistent when
  the backscatter-only solve returns the backscattering cross section of the full solve.
\<close>

definition kernel_consistent :: "externals \<Rightarrow> bool" where
  "kernel_consistent E \<longleftrightarrow>
     (\<forall>Deff Vol wavelength K kappa gamma beta zeta1 Nangles.
        Cbck_of (ssrga E Deff Vol wavelength K kappa gamma beta zeta1 Nangles) =
        ssrgaBack E Deff Vol wavelength K kappa gamma beta zeta1)"

text \<open>
  A small instance of the imported names, for evaluating the interface on concrete inputs:
  a database whose nine arrays are told apart by their values, and a kernel that hands
  back some of its arguments.
\<close>

definition example_externals :: externals where
  "example_externals =
     \<lparr> snowLibrary = (\<lambda>ds label.
         (map (\<lambda>d. 1) ds, map (\<lambda>d. 2) ds, map (\<lambda>d. 3) ds, map (\<lambda>d. 4) ds,
          map (\<lambda>d. 1) ds, map (\<lambda>d. 6) ds, map (\<lambda>d. 7 * d) ds, map (\<lambda>d. 8 * d) ds,
          map (\<lambda>d. 9 * d) ds)),
       ice_n = (\<lambda>temperature frequency check. map (\<lambda>t. 1) temperature),
       hexPrismK = (\<lambda>n ar. n),
       ssrga = (\<lambda>Deff Vol wavelength K kappa gamma beta zeta1 Nangles.
         (Deff, Vol, kappa, gamma, beta, [zeta1])),
       ssrgaBack = (\<lambda>Deff Vol wavelength K kappa gamma beta zeta1. gamma),
       const_c = 299792458,
       const_ice_density = 917 \<rparr>"

section \<open>The fall-speed models\<close>

text \<open>
  \<^verbatim>\<open>_fallSpeedModels.py\<close>. Each model is a chain of elementwise numpy operations;
  it is written here on one particle, with the local names of the source, and applied to
  arrays elementwise. The imported constants \<^verbatim>\<open>g\<close> and \<^verbatim>\<open>rho_ice\<close> are
  parameters, and so are the arguments that have a default in the source (\<^verbatim>\<open>rho_air\<close>,
  \<^verbatim>\<open>nu_air\<close>, \<^verbatim>\<open>rho0\<close>, \<^verbatim>\<open>T0\<close>, \<^verbatim>\<open>as_ratio\<close>, \<^verbatim>\<open>k\<close>,
  \<^verbatim>\<open>smooth\<close>). A power with an integer exponent is \<open>^\<close>, any other power is
  \<open>powr\<close>; \<^verbatim>\<open>Re\<close> is written \<open>Re'\<close>.
\<close>

definition np_elementwise3 ::
  "(real \<Rightarrow> real \<Rightarrow> real \<Rightarrow> real) \<Rightarrow> real list \<Rightarrow> real list \<Rightarrow> real list \<Rightarrow> error + real list" where
  "np_elementwise3 f xs ys zs =
     bind_err (np_binop Pair xs ys) (\<lambda>xys. np_binop (\<lambda>(x, y) z. f x y z) xys zs)"

definition correctionFooteduToit :: "real list \<Rightarrow> real \<Rightarrow> real \<Rightarrow> real \<Rightarrow> real \<Rightarrow> real list" where
  "correctionFooteduToit vel rho_air temperature rho0 T0 =
     (let log_density_scale = log 10 (rho0 / rho_air);
          Y = 0.43 * log_density_scale - 0.4 * (log_density_scale powr 2.5)
      in map (\<lambda>v. v * 10 powr Y * (1 + (0.0023 * (1.1 - (rho_air / rho0)) * (T0 - temperature))))
           vel)"

text \<open>The standard air density the docstring of \<^verbatim>\<open>correctionFooteduToit\<close> gives.\<close>

definition standard_air_density :: real where
  "standard_air_density = 1.2038631624242195"

definition Boehm1992 :: "real \<Rightarrow> real \<Rightarrow> real \<Rightarrow> real \<Rightarrow> real \<Rightarrow> real \<Rightarrow> real \<Rightarrow> real" where
  "Boehm1992 g diam mass area rho_air nu_air as_ratio =
     (let q = area / (pi / 4 * diam\<^sup>2);
          eta_air = nu_air * rho_air;
          alpha = as_ratio;
          X_0 = 2800000;
          X = 8 * mass * g * rho_air /
                (pi * (eta_air\<^sup>2) * max alpha (1 * 1) * max (q powr 0.25) q);
          k = 1;
          gama_big = max (1 * 1) (min (1 * 1.98)
                       (3.76 - 8.41 * alpha + 9.18 * alpha\<^sup>2 - 3.53 * alpha ^ 3));
          C_DP = max (0.292 * k * gama_big) (0.492 - 0.2 / sqrt alpha);
          C_DP = max 1 (q * (1.46 * q - 0.46)) * C_DP;
          C_DP_prim = C_DP * (1 + 1.6 * (X / X_0)\<^sup>2) / (1 + (X / X_0)\<^sup>2);
          beta = sqrt (1 + C_DP_prim / 6 / k * sqrt (X / C_DP_prim)) - 1;
          N_Re0 = 6 * k / C_DP_prim * beta\<^sup>2;
          C_DO = 4.5 * k\<^sup>2 * max alpha (1 * 1);
          gama_small = (C_DO - C_DP) / 4 / C_DP;
          N_Re = N_Re0 * (1 + (2 * beta * exp (- beta * gama_small)) / ((2 + beta) * (1 + beta)));
          vterm_bohm = N_Re * eta_air / diam / rho_air
      in vterm_bohm)"

definition Boehm1989 :: "real \<Rightarrow> real \<Rightarrow> real \<Rightarrow> real \<Rightarrow> real \<Rightarrow> real \<Rightarrow> real" where
  "Boehm1989 g diam mass area rho_air nu_air =
     (let q = area / (pi / 4 * diam\<^sup>2);
          eta_air = nu_air * rho_air;
          X = 8 * mass * g * rho_air / (pi * (eta_air\<^sup>2) * q powr 0.25);
          Re' = 8.5 * ((1 + 0.1519 * X powr 0.5) powr 0.5 - 1)\<^sup>2;
          vterm_bohm = Re' * eta_air / diam / rho_air
      in vterm_bohm)"

definition HeymsfieldWestbrook2010 ::
  "real \<Rightarrow> real \<Rightarrow> real \<Rightarrow> real \<Rightarrow> real \<Rightarrow> real \<Rightarrow> real \<Rightarrow> real" where
  "HeymsfieldWestbrook2010 g diaSpec mass area rho_air nu_air k =
     (let delta_0 = 8;
          C_0 = 0.35;
          area_proj = area / ((pi / 4) * diaSpec\<^sup>2);
          eta = nu_air * rho_air;
          Xstar = 8 * rho_air * mass * g / (pi * area_proj powr (1 - k) * eta\<^sup>2);
          Re' = 0.25 * delta_0\<^sup>2 *
                  ((1 + ((4 * Xstar powr 0.5) / (delta_0 powr 2 * C_0 powr 0.5))) powr 0.5 - 1)\<^sup>2;
          velSpec = eta * Re' / (rho_air * diaSpec)
      in velSpec)"

definition X2Cd_kc05rough :: "real \<Rightarrow> real" where
  "X2Cd_kc05rough Xbest =
     (let do_i = 5.83;
          co_i = 0.6;
          Ct = 1.6;
          X0_i = 35714285714285714285 / 10 ^ 26;
          c1 = 4 / (do_i\<^sup>2 * sqrt co_i);
          c2 = 0.25 * do_i\<^sup>2;
          bracket = sqrt (1 + c1 * sqrt Xbest) - 1;
          psi = (1 + (Xbest * X0_i)\<^sup>2) / (1 + Ct * (Xbest * X0_i)\<^sup>2);
          Re' = c2 * bracket\<^sup>2
      in co_i * (1 + do_i / sqrt Re')\<^sup>2 / psi)"

definition X2Cd_kc05smooth :: "real \<Rightarrow> real" where
  "X2Cd_kc05smooth Xbest =
     (let do_i = 9.06;
          co_i = 0.292;
          Ct = 1.6;
          X0_i = 1 / 6700000;
          c1 = 4 / (do_i\<^sup>2 * sqrt co_i);
          c2 = 0.25 * do_i\<^sup>2;
          bracket = sqrt (1 + c1 * sqrt Xbest) - 1;
          psi = (1 + (Xbest * X0_i)\<^sup>2) / (1 + Ct * (Xbest * X0_i)\<^sup>2);
          Re' = c2 * bracket\<^sup>2
      in co_i * (1 + do_i / sqrt Re')\<^sup>2 / psi)"

definition KhvorostyanovCurry2005 ::
  "real \<Rightarrow> real \<Rightarrow> real \<Rightarrow> real \<Rightarrow> real \<Rightarrow> real \<Rightarrow> real \<Rightarrow> bool \<Rightarrow> real" where
  "KhvorostyanovCurry2005 g rho_ice diam mass area rho_air nu_air smooth =
     (let Vb = mass / rho_ice;
          Fb = rho_air * Vb * g;
          eta_air = nu_air * rho_air;
          Xbest = 2 * \<bar>mass * g - Fb\<bar> * rho_air * diam\<^sup>2 / (area * eta_air\<^sup>2);
          Cd = (if smooth then X2Cd_kc05smooth Xbest else X2Cd_kc05rough Xbest)
      in sqrt (2 * \<bar>mass * g - Fb\<bar> / (rho_air * area * Cd)))"

text \<open>The models on arrays of diameters, masses and areas.\<close>

definition Boehm1989_arr ::
  "real \<Rightarrow> real list \<Rightarrow> real list \<Rightarrow> real list \<Rightarrow> real \<Rightarrow> real \<Rightarrow> error + real list" where
  "Boehm1989_arr g diam mass area rho_air nu_air =
     np_elementwise3 (\<lambda>d m a. Boehm1989 g d m a rho_air nu_air) diam mass area"

text \<open>
  The formula the specification gives for \<^verbatim>\<open>Boehm1989\<close>:
  \<^verbatim>\<open>q = area/(pi/4*diam^2); eta = nu_air*rho_air;
  X = 8*mass*g*rho_air/(pi*eta^2*q^0.25); Re = 8.5*(sqrt(1+0.1519*sqrt(X))-1)^2;
  velocity = Re*eta/(diam*rho_air)\<close>.
\<close>

definition Boehm1989_spec :: "real \<Rightarrow> real \<Rightarrow> real \<Rightarrow> real \<Rightarrow> real \<Rightarrow> real \<Rightarrow> real" where
  "Boehm1989_spec g diam mass area rho_air nu_air =
     (let q = area / ((pi / 4) * diam\<^sup>2);
          eta = nu_air * rho_air;
          X = 8 * mass * g * rho_air / (pi * eta\<^sup>2 * q powr 0.25);
          Re' = 8.5 * (sqrt (1 + 0.1519 * sqrt X) - 1)\<^sup>2
      in Re' * eta / (diam * rho_air))"

text \<open>
  A scalar argument stretched to an array of a given length, and the velocity component of
  the triple \<^verbatim>\<open>snowMassVelocityArea\<close> returns.
\<close>

definition broadcast_arg :: "nat \<Rightarrow> 'a arg \<Rightarrow> 'a arg" where
  "broadcast_arg N x = (case x of Scalar s \<Rightarrow> Array (replicate N s) | Array xs \<Rightarrow> Array xs)"

definition vel_of :: "real list \<times> real list \<times> real list \<Rightarrow> real list" where
  "vel_of r = (case r of (mass, vel, area) \<Rightarrow> vel)"

section \<open>The scattering interface: results\<close>

lemma bind_err_simps [simp]:
  "bind_err (Inl e) f = Inl e" "bind_err (Inr v) f = f v"
  by (simp_all add: bind_err_def)

lemma bind_err_eq_Inr: "bind_err r f = Inr y \<longleftrightarrow> (\<exists>v. r = Inr v \<and> f v = Inr y)"
  by (cases r) simp_all

lemma bind_err_eq_Inl: "bind_err r f = Inl e \<longleftrightarrow> (r = Inl e \<or> (\<exists>v. r = Inr v \<and> f v = Inl e))"
  by (cases r) simp_all

lemma np_binop_error: "np_binop f xs ys = Inl e \<Longrightarrow> e = DimensionMismatch"
  by (auto simp: np_binop_def split: if_splits)

lemma np_mul_error: "np_mul x ys = Inl e \<Longrightarrow> e = DimensionMismatch"
  by (auto simp: np_mul_def dest: np_binop_error split: arg.splits)

lemma np_mul_broadcast_arg:
  fixes x :: "'a::monoid_mult arg"
  shows "np_mul (broadcast_arg (length ds) x) (ones_like ds) = np_mul x (ones_like ds)"
  by (cases x)
     (simp_all add: broadcast_arg_def np_mul_def np_binop_def ones_like_def map2_map_map
        map_replicate_const)

lemma prepare_input_broadcast:
  "prepare_input E ds (broadcast_arg (length (convert_to_array ds)) w) p
      (map_option (broadcast_arg (length (convert_to_array ds))) r)
      (map_option (broadcast_arg (length (convert_to_array ds))) t)
      (map_option (broadcast_arg (length (convert_to_array ds))) m) th =
   prepare_input E ds w p r t m th"
  by (cases r; cases t; cases m) (simp_all add: prepare_input_def Let_def np_mul_broadcast_arg)

lemma prepare_input_scalar:
  "prepare_input E (Scalar d) w p r t m th = prepare_input E (Array [d]) w p r t m th"
  by (simp add: prepare_input_def convert_to_array_def)

text \<open>
  Claim C10. Every public scattering operation gives, on a scalar diameter \<open>d\<close>, the result
  it gives on the array \<open>[d]\<close>; and a scalar wavelength, refractive index, temperature or
  mass gives the result of the same value stretched to the number of diameters.
\<close>

theorem scalar_is_singleton_array:
  "calcProperties E (Scalar d) w p r t m th n = calcProperties E (Array [d]) w p r t m th n \<and>
   backscatter E (Scalar d) w p r t m th = backscatter E (Array [d]) w p r t m th \<and>
   backscatVel E (Scalar d) w p r t m th = backscatVel E (Array [d]) w p r t m th \<and>
   snowMassVelocityArea E (Scalar d) p = snowMassVelocityArea E (Array [d]) p \<and>
   (let N = length (convert_to_array ds) in
    calcProperties E ds w p r t m th n =
      calcProperties E ds (broadcast_arg N w) p (map_option (broadcast_arg N) r)
        (map_option (broadcast_arg N) t) (map_option (broadcast_arg N) m) th n \<and>
    backscatter E ds w p r t m th =
      backscatter E ds (broadcast_arg N w) p (map_option (broadcast_arg N) r)
        (map_option (broadcast_arg N) t) (map_option (broadcast_arg N) m) th \<and>
    backscatVel E ds w p r t m th =
      backscatVel E ds (broadcast_arg N w) p (map_option (broadcast_arg N) r)
        (map_option (broadcast_arg N) t) (map_option (broadcast_arg N) m) th)"
  by (simp add: calcProperties_def backscatter_def backscatVel_def snowMassVelocityArea_def
        prepare_input_scalar prepare_input_broadcast Let_def)
     (simp add: convert_to_array_def)

lemma prepare_input_Inr:
  assumes "prepare_input E d w p r t m th =
             Inr (Deff, Vol, wl, K, kappa, gamma, beta, zeta1, mass_prop, vel, area)"
    and "snowLibrary E (convert_to_array d) p = (c1, c2, c3, c4, alpha_eff, ar_mono, c7, c8, c9)"
  shows "kappa = c1 \<and> gamma = c3 \<and> beta = c2 \<and> zeta1 = c4 \<and> mass_prop = c7 \<and> vel = c8 \<and> area = c9
     \<and> (\<exists>wl'. np_mul w (ones_like (convert_to_array d)) = Inr wl' \<and> wl = wl')
     \<and> (case m of None \<Rightarrow> Vol = map (\<lambda>x. x / const_ice_density E) c7
          | Some m' \<Rightarrow> \<exists>mb. np_mul m' (ones_like (convert_to_array d)) = Inr mb \<and>
                          Vol = map (\<lambda>x. x / const_ice_density E) mb)
     \<and> compute_effective_size_arr (convert_to_array d) alpha_eff th = Inr Deff"
  using assms
  by (auto simp: prepare_input_def Let_def bind_err_eq_Inr split: option.splits)

theorem ssrga_parameters_by_position_counterexample:
  "\<not> ssrga_params_in_lookup_order example_externals (Scalar 1) (Scalar 1) ''label''
        (Some (Scalar 1)) None None 0"
  by (simp add: ssrga_params_in_lookup_order_def prepare_input_def example_externals_def
      convert_to_array_def ones_like_def np_mul_def Let_def compute_effective_size_arr_def
      np_binop_def prepared_ssrga_def lookup_ssrga_def)

text \<open>
  Claim C1, as amended. Where the normalization step returns, the four structure parameters it
  returns in the order kappa, gamma, beta, zeta1 are the first, the third, the second and the
  fourth component of the database lookup for the diameter array and the label, and it is in
  this order that the three scattering operations pass them to the kernel.
\<close>

theorem ssrga_parameters_by_position:
  assumes "prepare_input E d w p r t m th =
             Inr (Deff, Vol, wl, K, kappa, gamma, beta, zeta1, mass_prop, vel, area)"
    and "snowLibrary E (convert_to_array d) p = (c1, c2, c3, c4, rest)"
  shows "kappa = c1 \<and> gamma = c3 \<and> beta = c2 \<and> zeta1 = c4 \<and>
     calcProperties E d w p r t m th n =
       (case ssrga E Deff Vol wl K c1 c3 c2 c4 n of
          (Cext, Cabs, Csca, Cbck, asym', phase) \<Rightarrow>
             Inr (Cext, Cabs, Csca, Cbck, asym', phase, mass_prop, vel, area)) \<and>
     backscatter E d w p r t m th = Inr (ssrgaBack E Deff Vol wl K c1 c3 c2 c4) \<and>
     backscatVel E d w p r t m th = Inr (ssrgaBack E Deff Vol wl K c1 c3 c2 c4, vel)"
proof -
  obtain alpha_eff ar_mono c7 c8 c9 where "rest = (alpha_eff, ar_mono, c7, c8, c9)"
    by (cases rest) auto
  with assms(2) have "snowLibrary E (convert_to_array d) p = (c1, c2, c3, c4, alpha_eff, ar_mono, c7, c8, c9)"
    by simp
  from prepare_input_Inr [OF assms(1) this]
  have "kappa = c1" "gamma = c3" "beta = c2" "zeta1 = c4" by simp_all
  with assms(1) show ?thesis
    by (simp add: calcProperties_def backscatter_def backscatVel_def)
qed

theorem ssrga_parameters_by_position_witness:
  "prepare_input example_externals (Scalar 1) (Scalar 1) ''label'' (Some (Scalar 1)) None None 0 =
     Inr ([1], [7 / 917], [1], [1], [1], [3], [2], [4], [7], [8], [9]) \<and>
   snowLibrary example_externals (convert_to_array (Scalar 1)) ''label'' =
     ([1], [2], [3], [4], [1], [6], [7], [8], [9]) \<and>
   calcProperties example_externals (Scalar 1) (Scalar 1) ''label'' (Some (Scalar 1)) None None 0 181 =
     Inr ([1], [7 / 917], [1], [3], [2], [[4]], [7], [8], [9]) \<and>
   backscatter example_externals (Scalar 1) (Scalar 1) ''label'' (Some (Scalar 1)) None None 0 = Inr [3]"
proof -
  have p: "prepare_input example_externals (Scalar 1) (Scalar 1) ''label'' (Some (Scalar 1)) None None 0 =
     Inr ([1], [7 / 917], [1], [1], [1], [3], [2], [4], [7], [8], [9])"
    by (simp add: prepare_input_def example_externals_def
      convert_to_array_def ones_like_def np_mul_def Let_def compute_effective_size_arr_def
      np_binop_def compute_effective_size_def)
  have l: "snowLibrary example_externals (convert_to_array (Scalar 1)) ''label'' =
     ([1], [2], [3], [4], [1], [6], [7], [8], [9])"
    by (simp add: example_externals_def convert_to_array_def)
  show ?thesis
    using ssrga_parameters_by_position [OF p l, of 181] p l by (simp add: example_externals_def)
qed

text \<open>
  Claim C2. For identical inputs the backscattering cross section that
  \<^verbatim>\<open>calcProperties\<close> returns is the result of \<^verbatim>\<open>backscatter\<close>, and the two fail
  alike, for a kernel whose backscatter-only solve agrees with its full solve: both hand the
  kernel the same normalized arguments.
\<close>

theorem backscatter_paths_agree:
  assumes "kernel_consistent E"
  shows "map_sum id calcProperties_Cbck (calcProperties E d w p r t m th n) =
         backscatter E d w p r t m th"
proof (cases "prepare_input E d w p r t m th")
  case (Inl e)
  then show ?thesis by (simp add: calcProperties_def backscatter_def)
next
  case (Inr v)
  obtain Deff Vol wl K kappa gamma beta zeta1 mass_prop vel area
    where v: "v = (Deff, Vol, wl, K, kappa, gamma, beta, zeta1, mass_prop, vel, area)"
    by (cases v) auto
  obtain Cext Cabs Csca Cbck asy phase
    where s: "ssrga E Deff Vol wl K kappa gamma beta zeta1 n = (Cext, Cabs, Csca, Cbck, asy, phase)"
    by (cases "ssrga E Deff Vol wl K kappa gamma beta zeta1 n") auto
  from assms have "Cbck_of (ssrga E Deff Vol wl K kappa gamma beta zeta1 n) =
      ssrgaBack E Deff Vol wl K kappa gamma beta zeta1"
    unfolding kernel_consistent_def by blast
  with s have "Cbck = ssrgaBack E Deff Vol wl K kappa gamma beta zeta1"
    by (simp add: Cbck_of_def)
  with Inr v s show ?thesis
    by (simp add: calcProperties_def backscatter_def calcProperties_Cbck_def)
qed

lemma example_prepare:
  "prepare_input example_externals (Array [1, 2]) (Scalar 1) ''label'' (Some (Scalar 1)) None
     (Some (Scalar 917)) 0 =
   Inr ([1, 2], [1, 1], [1, 1], [1, 1], [1, 1], [3, 3], [2, 2], [4, 4], [7, 14], [8, 16], [9, 18])"
  by (simp add: prepare_input_def example_externals_def
      convert_to_array_def ones_like_def np_mul_def Let_def compute_effective_size_arr_def
      np_binop_def compute_effective_size_def)

theorem backscatter_paths_agree_witness:
  "kernel_consistent example_externals \<and>
   calcProperties example_externals (Array [1, 2]) (Scalar 1) ''label'' (Some (Scalar 1)) None
     (Some (Scalar 917)) 0 181 =
     Inr ([1, 2], [1, 1], [1, 1], [3, 3], [2, 2], [[4, 4]], [7, 14], [8, 16], [9, 18]) \<and>
   backscatter example_externals (Array [1, 2]) (Scalar 1) ''label'' (Some (Scalar 1)) None
     (Some (Scalar 917)) 0 = Inr [3, 3]"
proof -
  have k: "kernel_consistent example_externals"
    by (simp add: kernel_consistent_def example_externals_def Cbck_of_def)
  have c: "calcProperties example_externals (Array [1, 2]) (Scalar 1) ''label'' (Some (Scalar 1)) None
     (Some (Scalar 917)) 0 181 =
     Inr ([1, 2], [1, 1], [1, 1], [3, 3], [2, 2], [[4, 4]], [7, 14], [8, 16], [9, 18])"
    by (simp add: calcProperties_def example_prepare) (simp add: example_externals_def)
  from backscatter_paths_agree [OF k, of "Array [1, 2]" "Scalar 1" "''label''" "Some (Scalar 1)" None
      "Some (Scalar 917)" 0 181] c k
  show ?thesis by (simp add: calcProperties_Cbck_def)
qed

lemma prepare_input_missing:
  "prepare_input E d w p r t m th = Inl MissingConfiguration \<longleftrightarrow>
     r = None \<and> t = None \<and> (\<exists>wl. np_mul w (ones_like (convert_to_array d)) = Inr wl)"
proof -
  have ne: "x \<noteq> Inl MissingConfiguration" if "x = np_mul a b" for x :: "error + 'z::times list" and a b
    using that np_mul_error [of a b] by (cases x) auto
  have ne2: "x \<noteq> Inl MissingConfiguration" if "x = np_binop f a b"
    for x :: "error + 'z list" and a :: "'x list" and b :: "'y list" and f
    using that np_binop_error [of f a b] by (cases x) auto
  show ?thesis
    apply (cases "np_mul w (ones_like (convert_to_array d))")
    subgoal for e using np_mul_error [of w "ones_like (convert_to_array d)" e]
      by (simp add: prepare_input_def Let_def)
    subgoal for wl
      apply (simp add: prepare_input_def Let_def)
      apply (cases r; cases t; simp)
      subgoal for tt
        by (auto simp: bind_err_eq_Inl compute_effective_size_arr_def split: prod.splits option.splits
            dest: np_mul_error np_binop_error)
      subgoal for rr
        by (auto simp: bind_err_eq_Inl compute_effective_size_arr_def split: prod.splits option.splits
            dest: np_mul_error np_binop_error)
      subgoal for rr tt
        by (auto simp: bind_err_eq_Inl compute_effective_size_arr_def split: prod.splits option.splits
            dest: np_mul_error np_binop_error)
      done
    done
qed

text \<open>
  Claim C3, as amended. Each scattering operation fails with the missing-configuration error
  exactly when the refractive index and the temperature are both absent and the wavelength
  can be broadcast against the diameters; a wavelength of another length raises the dimension
  mismatch first. With either of the two supplied, the missing-configuration error is not
  raised.
\<close>

theorem missing_configuration_iff:
  "(calcProperties E d w p r t m th n = Inl MissingConfiguration \<longleftrightarrow>
      r = None \<and> t = None \<and> np_mul w (ones_like (convert_to_array d)) \<noteq> Inl DimensionMismatch) \<and>
   (backscatter E d w p r t m th = Inl MissingConfiguration \<longleftrightarrow>
      r = None \<and> t = None \<and> np_mul w (ones_like (convert_to_array d)) \<noteq> Inl DimensionMismatch) \<and>
   (backscatVel E d w p r t m th = Inl MissingConfiguration \<longleftrightarrow>
      r = None \<and> t = None \<and> np_mul w (ones_like (convert_to_array d)) \<noteq> Inl DimensionMismatch)"
proof -
  have a: "(\<exists>wl. np_mul w (ones_like (convert_to_array d)) = Inr wl) \<longleftrightarrow>
      np_mul w (ones_like (convert_to_array d)) \<noteq> Inl DimensionMismatch"
    using np_mul_error [of w "ones_like (convert_to_array d)"]
    by (cases "np_mul w (ones_like (convert_to_array d)) :: error + real list") auto
  have b: "bind_err x f = Inl MissingConfiguration \<longleftrightarrow> x = Inl MissingConfiguration"
    if "\<And>v. f v \<noteq> Inl MissingConfiguration" for x :: "error + prepared" and f :: "prepared \<Rightarrow> error + 'z"
    using that by (cases x) auto
  show ?thesis
    unfolding calcProperties_def backscatter_def backscatVel_def
    by (subst b, force split: prod.splits)+ (simp add: prepare_input_missing a)
qed

theorem missing_configuration_iff_counterexample:
  "calcProperties example_externals (Array [1, 2]) (Array [1, 2, 3]) ''label'' None None None 0 181
     \<noteq> Inl MissingConfiguration"
  by (simp add: calcProperties_def prepare_input_def convert_to_array_def ones_like_def np_mul_def
        np_binop_def Let_def)

theorem missing_configuration_iff_witness:
  "calcProperties example_externals (Array [1, 2]) (Scalar 1) ''label'' None None None 0 181
     = Inl MissingConfiguration \<and>
   calcProperties example_externals (Array [1, 2]) (Array [1, 2, 3]) ''label'' None None None 0 181
     = Inl DimensionMismatch \<and>
   backscatter example_externals (Array [1, 2]) (Scalar 1) ''label'' None (Some (Scalar 270)) None 0
     \<noteq> Inl MissingConfiguration"
  using missing_configuration_iff [of example_externals "Array [1, 2]" "Scalar 1" "''label''" None None None 0 181]
    missing_configuration_iff [of example_externals "Array [1, 2]" "Scalar 1" "''label''" None "Some (Scalar 270)" None 0 181]
  by (simp add: np_mul_def)
    (simp add: calcProperties_def prepare_input_def convert_to_array_def ones_like_def np_mul_def
        np_binop_def Let_def)

text \<open>
  Claim C4. Whenever \<^verbatim>\<open>backscatVel\<close> returns, the velocity array it returns is the
  velocity array of \<^verbatim>\<open>snowMassVelocityArea\<close> for the same diameters and label.
\<close>

theorem backscatVel_velocity_is_lookup:
  assumes "backscatVel E d w p r t m th = Inr (Cbck, vel)"
  shows "vel = vel_of (snowMassVelocityArea E d p)"
proof -
  from assms obtain v where v: "prepare_input E d w p r t m th = Inr v"
    by (auto simp: backscatVel_def bind_err_eq_Inr)
  obtain Deff Vol wl K kappa gamma beta zeta1 mass_prop vel' area
    where v': "v = (Deff, Vol, wl, K, kappa, gamma, beta, zeta1, mass_prop, vel', area)"
    by (cases v) auto
  obtain c1 c2 c3 c4 alpha_eff ar_mono c7 c8 c9
    where l: "snowLibrary E (convert_to_array d) p = (c1, c2, c3, c4, alpha_eff, ar_mono, c7, c8, c9)"
    by (cases "snowLibrary E (convert_to_array d) p") auto
  from prepare_input_Inr [OF v [unfolded v'] l] have "vel' = c8" by simp
  moreover from assms v v' have "vel = vel'" by (simp add: backscatVel_def)
  ultimately show ?thesis using l
    by (simp add: snowMassVelocityArea_def vel_of_def Let_def)
qed

theorem backscatVel_velocity_is_lookup_witness:
  "backscatVel example_externals (Array [1, 2]) (Scalar 1) ''label'' (Some (Scalar 1)) None
     (Some (Scalar 917)) 0 = Inr ([3, 3], [8, 16]) \<and>
   vel_of (snowMassVelocityArea example_externals (Array [1, 2]) ''label'') = [8, 16]"
proof -
  have b: "backscatVel example_externals (Array [1, 2]) (Scalar 1) ''label'' (Some (Scalar 1)) None
     (Some (Scalar 917)) 0 = Inr ([3, 3], [8, 16])"
    by (simp add: backscatVel_def example_prepare) (simp add: example_externals_def)
  from backscatVel_velocity_is_lookup [OF b] b show ?thesis by simp
qed

text \<open>
  Claim C5. With a mass supplied, the mass that the normalization step and
  \<^verbatim>\<open>calcProperties\<close> return is the mass of the database lookup; the volume handed to
  the kernel is the supplied mass, broadcast, divided by the ice density; and every other
  component is what the call without a mass returns.
\<close>

theorem explicit_mass_only_in_volume:
  assumes "prepare_input E d w p r t (Some m) th =
             Inr (Deff, Vol, wl, K, kappa, gamma, beta, zeta1, mass_prop, vel, area)"
  shows "mass_prop = lookup_mass (snowLibrary E (convert_to_array d) p) \<and>
     (\<exists>mb. np_mul m (ones_like (convert_to_array d)) = Inr mb \<and>
           Vol = map (\<lambda>x. x / const_ice_density E) mb) \<and>
     prepare_input E d w p r t None th =
        Inr (Deff, map (\<lambda>x. x / const_ice_density E) mass_prop, wl, K, kappa, gamma, beta, zeta1,
             mass_prop, vel, area) \<and>
     calcProperties E d w p r t (Some m) th n =
       (case ssrga E Deff Vol wl K kappa gamma beta zeta1 n of
          (Cext, Cabs, Csca, Cbck, asym', phase) \<Rightarrow>
             Inr (Cext, Cabs, Csca, Cbck, asym', phase, mass_prop, vel, area))"
proof -
  obtain c1 c2 c3 c4 alpha_eff ar_mono c7 c8 c9
    where l: "snowLibrary E (convert_to_array d) p = (c1, c2, c3, c4, alpha_eff, ar_mono, c7, c8, c9)"
    by (cases "snowLibrary E (convert_to_array d) p") auto
  note f = prepare_input_Inr [OF assms l]
  from f l have 1: "mass_prop = lookup_mass (snowLibrary E (convert_to_array d) p)"
    by (simp add: lookup_mass_def)
  from f have 2: "\<exists>mb. np_mul m (ones_like (convert_to_array d)) = Inr mb \<and>
           Vol = map (\<lambda>x. x / const_ice_density E) mb" by simp
  from assms l have 3: "prepare_input E d w p r t None th =
        Inr (Deff, map (\<lambda>x. x / const_ice_density E) mass_prop, wl, K, kappa, gamma, beta, zeta1,
             mass_prop, vel, area)"
    by (cases "np_mul w (ones_like (convert_to_array d)) :: error + real list"; cases r; cases t)
       (auto simp: prepare_input_def Let_def bind_err_eq_Inr)
  from assms have 4: "calcProperties E d w p r t (Some m) th n =
       (case ssrga E Deff Vol wl K kappa gamma beta zeta1 n of
          (Cext, Cabs, Csca, Cbck, asym', phase) \<Rightarrow>
             Inr (Cext, Cabs, Csca, Cbck, asym', phase, mass_prop, vel, area))"
    by (simp add: calcProperties_def)
  from 1 2 3 4 show ?thesis by blast
qed

theorem explicit_mass_only_in_volume_witness:
  "prepare_input example_externals (Array [1, 2]) (Scalar 1) ''label'' (Some (Scalar 1)) None
     (Some (Scalar 917)) 0 =
     Inr ([1, 2], [1, 1], [1, 1], [1, 1], [1, 1], [3, 3], [2, 2], [4, 4], [7, 14], [8, 16], [9, 18]) \<and>
   lookup_mass (snowLibrary example_externals (convert_to_array (Array [1, 2])) ''label'') = [7, 14] \<and>
   prepare_input example_externals (Array [1, 2]) (Scalar 1) ''label'' (Some (Scalar 1)) None None 0 =
     Inr ([1, 2], [7 / 917, 14 / 917], [1, 1], [1, 1], [1, 1], [3, 3], [2, 2], [4, 4], [7, 14],
          [8, 16], [9, 18])"
  using explicit_mass_only_in_volume [OF example_prepare, of 181] example_prepare
  by (simp add: example_externals_def)

text \<open>
  Claim C6. With the actual air density equal to the reference density and the actual
  temperature equal to the reference temperature, \<^verbatim>\<open>correctionFooteduToit\<close> returns
  the velocity array unchanged, for every reference temperature and every reference density
  other than zero, the defaults among them.
\<close>

theorem correctionFooteduToit_identity:
  assumes "rho0 \<noteq> 0"
  shows "correctionFooteduToit vel rho0 T0 rho0 T0 = vel"
  using assms by (simp add: correctionFooteduToit_def Let_def)

theorem correctionFooteduToit_identity_witness:
  "standard_air_density \<noteq> 0 \<and>
   correctionFooteduToit [1, 2.5, 0] standard_air_density 293.15 standard_air_density 293.15 =
     [1, 2.5, 0]"
proof -
  have h: "standard_air_density \<noteq> 0" by (simp add: standard_air_density_def)
  from correctionFooteduToit_identity [OF h] h show ?thesis by simp
qed

text \<open>
  Claim C7. The effective size is the same at the angle \<open>angle\<close> and at \<open>pi - angle\<close>,
  for every size, aspect ratio and angle, on one particle and on arrays.
\<close>

theorem effective_size_mirror:
  "compute_effective_size size' ar angle = compute_effective_size size' ar (pi - angle) \<and>
   compute_effective_size_arr sizes ars angle = compute_effective_size_arr sizes ars (pi - angle)"
  by (simp add: compute_effective_size_def compute_effective_size_arr_def power_divide)

section \<open>The fall-speed models: results\<close>

lemma np_binop_cong:
  assumes "\<And>x y. x \<in> set xs \<Longrightarrow> y \<in> set ys \<Longrightarrow> f x y = f' x y"
  shows "np_binop f xs ys = np_binop f' xs ys"
proof -
  have 1: "map2 f xs ys = map2 f' xs ys"
    using assms by (auto dest: set_zip_leftD set_zip_rightD)
  have 2: "map (f (hd xs)) ys = map (f' (hd xs)) ys" if "length xs = 1"
    using that assms by (cases xs) auto
  have 3: "map (\<lambda>x. f x (hd ys)) xs = map (\<lambda>x. f' x (hd ys)) xs" if "length ys = 1"
    using that assms by (cases ys) auto
  show ?thesis using 1 2 3 by (simp add: np_binop_def)
qed

lemma np_binop_Pair_set:
  assumes "np_binop Pair xs ys = Inr xys" and "(x, y) \<in> set xys"
  shows "y \<in> set ys"
proof -
  consider "length xs = length ys" "xys = zip xs ys"
    | "length xs = 1" "xys = map (Pair (hd xs)) ys"
    | "length ys = 1" "xys = map (\<lambda>x. (x, hd ys)) xs"
    using assms(1) by (auto simp: np_binop_def zip_map_fst_snd split: if_splits)
  then show ?thesis
  proof cases
    case 1 with assms(2) show ?thesis by (auto dest: set_zip_rightD)
  next
    case 2 with assms(2) show ?thesis by auto
  next
    case 3 with assms(2) show ?thesis by (cases ys) auto
  qed
qed

lemma np_elementwise3_cong:
  assumes "\<And>x y z. y \<in> set ys \<Longrightarrow> f x y z = f' x y z"
  shows "np_elementwise3 f xs ys zs = np_elementwise3 f' xs ys zs"
proof (cases "np_binop Pair xs ys")
  case (Inl e)
  then show ?thesis by (simp add: np_elementwise3_def)
next
  case (Inr xys)
  have "np_binop (\<lambda>(x, y) z. f x y z) xys zs = np_binop (\<lambda>(x, y) z. f' x y z) xys zs"
    by (rule np_binop_cong) (auto dest: np_binop_Pair_set [OF Inr] intro: assms)
  with Inr show ?thesis by (simp add: np_elementwise3_def)
qed

lemma Boehm1989_eq_spec:
  assumes "0 \<le> mass * g * rho_air"
  shows "Boehm1989 g diam mass area rho_air nu_air = Boehm1989_spec g diam mass area rho_air nu_air"
proof -
  define X where "X = 8 * mass * g * rho_air /
     (pi * (nu_air * rho_air)\<^sup>2 * (area / (pi / 4 * diam\<^sup>2)) powr 0.25)"
  have "0 \<le> 8 * (mass * g * rho_air)" using assms by simp
  then have "0 \<le> 8 * mass * g * rho_air" by (simp add: mult.assoc)
  moreover have "0 \<le> pi * (nu_air * rho_air)\<^sup>2 * (area / (pi / 4 * diam\<^sup>2)) powr 0.25"
    by (intro mult_nonneg_nonneg) auto
  ultimately have "0 \<le> X" unfolding X_def by (rule divide_nonneg_nonneg)
  then have a: "X powr 0.5 = sqrt X" using powr_half_sqrt [of X] by simp
  have "0 \<le> 1 + 0.1519 * sqrt X" using \<open>0 \<le> X\<close> by simp
  then have b: "(1 + 0.1519 * sqrt X) powr 0.5 = sqrt (1 + 0.1519 * sqrt X)"
    using powr_half_sqrt [of "1 + 0.1519 * sqrt X"] by simp
  show ?thesis
    unfolding Boehm1989_def Boehm1989_spec_def Let_def X_def [symmetric] a b
    by simp
qed

text \<open>
  Claim C8. On arrays of diameters, masses and areas, \<^verbatim>\<open>Boehm1989\<close> returns
  \<open>Re * eta / (diam * rho_air)\<close> with \<open>eta = nu_air * rho_air\<close>,
  \<open>q = area / ((pi / 4) * diam\<^sup>2)\<close>, \<open>X = 8 * mass * g * rho_air / (pi * eta\<^sup>2 * q powr 0.25)\<close>
  and \<open>Re = 8.5 * (sqrt (1 + 0.1519 * sqrt X) - 1)\<^sup>2\<close>, for every diameter, area and
  viscosity and for all masses, gravity and air density that are not negative: there \<open>X\<close> is
  not negative and the two square roots of the source, written as powers \<open>0.5\<close>, are defined.
\<close>

theorem Boehm1989_formula:
  assumes "0 \<le> g" and "0 \<le> rho_air" and "\<forall>m\<in>set mass. 0 \<le> m"
  shows "Boehm1989_arr g diam mass area rho_air nu_air =
         np_elementwise3 (\<lambda>d m a. Boehm1989_spec g d m a rho_air nu_air) diam mass area"
  unfolding Boehm1989_arr_def
  by (rule np_elementwise3_cong, rule Boehm1989_eq_spec) (use assms in auto)

theorem Boehm1989_formula_witness:
  "(0::real) \<le> 9.81 \<and> (0::real) \<le> 1.2 \<and> (0::real) \<le> 1 / 10 ^ 6 \<and> (0::real) \<le> 2 / 10 ^ 6 \<and>
   Boehm1989_arr 9.81 [1 / 1000, 2 / 1000] [1 / 10 ^ 6, 2 / 10 ^ 6] [1 / 10 ^ 7] 1.2 (15 / 10 ^ 6) =
   np_elementwise3 (\<lambda>d m a. Boehm1989_spec 9.81 d m a 1.2 (15 / 10 ^ 6))
     [1 / 1000, 2 / 1000] [1 / 10 ^ 6, 2 / 10 ^ 6] [1 / 10 ^ 7]"
proof -
  have h: "(0::real) \<le> 9.81" "(0::real) \<le> 1.2" "\<forall>m\<in>set [1 / 10 ^ 6, 2 / 10 ^ 6 :: real]. 0 \<le> m"
    by simp_all
  from Boehm1989_formula [OF h] show ?thesis by simp
qed

subsection \<open>Square-root Reynolds numbers: Boehm 1989 and Heymsfield-Westbrook 2010\<close>

text \<open>
  Both models turn a Best number \<open>X\<close>, proportional to the mass, into a Reynolds number
  proportional to \<open>(sqrt (1 + c * sqrt X) - 1)\<^sup>2\<close>, which is positive for positive \<open>X\<close>
  and strictly increasing.
\<close>

lemma bracket_pos:
  fixes c X :: real
  assumes "0 < c" "0 < X"
  shows "0 < sqrt (1 + c * sqrt X) - 1"
proof -
  have "0 < sqrt X" using assms by simp
  then have "0 < c * sqrt X" using assms by (intro mult_pos_pos)
  then have "1 < 1 + c * sqrt X" by linarith
  then have "1 < sqrt (1 + c * sqrt X)" by (simp only: real_sqrt_gt_1_iff)
  then show ?thesis by linarith
qed

lemma bracket_mono:
  fixes c X Y :: real
  assumes "0 < c" "0 \<le> X" "X < Y"
  shows "sqrt (1 + c * sqrt X) - 1 < sqrt (1 + c * sqrt Y) - 1"
proof -
  have "sqrt X < sqrt Y" using assms by simp
  then have "c * sqrt X < c * sqrt Y" using assms by simp
  then show ?thesis by simp
qed

lemma bracket_sq_mono:
  fixes c X Y :: real
  assumes "0 < c" "0 < X" "X < Y"
  shows "(sqrt (1 + c * sqrt X) - 1)\<^sup>2 < (sqrt (1 + c * sqrt Y) - 1)\<^sup>2"
proof -
  have "0 < sqrt (1 + c * sqrt X) - 1" using assms by (intro bracket_pos)
  moreover have "sqrt (1 + c * sqrt X) - 1 < sqrt (1 + c * sqrt Y) - 1"
    using assms by (intro bracket_mono) auto
  ultimately show ?thesis by (intro power_strict_mono) auto
qed

lemma bracket_sq_pos:
  fixes c X :: real
  assumes "0 < c" "0 < X"
  shows "0 < (sqrt (1 + c * sqrt X) - 1)\<^sup>2"
  using bracket_pos [OF assms] by (rule zero_less_power)

lemma bracket_powr:
  fixes c X :: real
  assumes "0 \<le> c" "0 \<le> X"
  shows "(1 + c * X powr 0.5) powr 0.5 - 1 = sqrt (1 + c * sqrt X) - 1"
proof -
  have "0 \<le> 1 + c * sqrt X" using assms by simp
  then show ?thesis using assms by (simp add: powr_half_sqrt)
qed

lemma Boehm1989_unfold:
  assumes "0 \<le> g" "0 \<le> rho_air" "0 \<le> mass"
  shows "Boehm1989 g diam mass area rho_air nu_air =
     8.5 * (sqrt (1 + 0.1519 * sqrt (mass * (8 * g * rho_air /
        (pi * (nu_air * rho_air)\<^sup>2 * (area / (pi / 4 * diam\<^sup>2)) powr 0.25)))) - 1)\<^sup>2
       * (nu_air * rho_air / diam / rho_air)"
proof -
  define D where "D = pi * (nu_air * rho_air)\<^sup>2 * (area / (pi / 4 * diam\<^sup>2)) powr 0.25"
  have D: "0 \<le> D" unfolding D_def by (intro mult_nonneg_nonneg) auto
  have X: "8 * mass * g * rho_air / D = mass * (8 * g * rho_air / D)" by simp
  have "0 \<le> mass * (8 * g * rho_air / D)" using assms D by (intro mult_nonneg_nonneg divide_nonneg_nonneg) auto
  then have "(1 + 0.1519 * (mass * (8 * g * rho_air / D)) powr 0.5) powr 0.5 - 1 =
      sqrt (1 + 0.1519 * sqrt (mass * (8 * g * rho_air / D))) - 1"
    by (intro bracket_powr) auto
  then show ?thesis
    unfolding Boehm1989_def Let_def D_def [symmetric] X by simp
qed

lemma Boehm1989_pos_mono:
  assumes "0 < g" "0 < rho_air" "0 < nu_air" "0 < diam" "0 < area" "0 < mass" "mass < mass'"
  shows "0 < Boehm1989 g diam mass area rho_air nu_air"
    and "Boehm1989 g diam mass area rho_air nu_air < Boehm1989 g diam mass' area rho_air nu_air"
proof -
  define K where "K = 8 * g * rho_air /
        (pi * (nu_air * rho_air)\<^sup>2 * (area / (pi / 4 * diam\<^sup>2)) powr 0.25)"
  define s where "s = nu_air * rho_air / diam / rho_air"
  have q: "0 < area / (pi / 4 * diam\<^sup>2)" using assms by simp
  have K: "0 < K" unfolding K_def using assms q by (intro divide_pos_pos mult_pos_pos) auto
  have s: "0 < s" unfolding s_def using assms by simp
  have X: "0 < mass * K" "mass * K < mass' * K" using assms K by auto
  have e: "Boehm1989 g diam m area rho_air nu_air =
      8.5 * (sqrt (1 + 0.1519 * sqrt (m * K)) - 1)\<^sup>2 * s" if "0 \<le> m" for m
    using Boehm1989_unfold [of g rho_air m diam area nu_air] that assms
    by (simp add: K_def s_def)
  have p: "0 < (sqrt (1 + 0.1519 * sqrt (mass * K)) - 1)\<^sup>2"
    using X by (intro bracket_sq_pos) auto
  have m: "(sqrt (1 + 0.1519 * sqrt (mass * K)) - 1)\<^sup>2 < (sqrt (1 + 0.1519 * sqrt (mass' * K)) - 1)\<^sup>2"
    using X by (intro bracket_sq_mono) auto
  show "0 < Boehm1989 g diam mass area rho_air nu_air"
    using p s assms by (simp add: e)
  show "Boehm1989 g diam mass area rho_air nu_air < Boehm1989 g diam mass' area rho_air nu_air"
    using m s assms by (simp add: e)
qed

lemma HeymsfieldWestbrook2010_unfold:
  assumes "0 \<le> g" "0 \<le> rho_air" "0 \<le> mass"
  shows "HeymsfieldWestbrook2010 g diaSpec mass area rho_air nu_air k =
     nu_air * rho_air * (0.25 * 8\<^sup>2 * (sqrt (1 + 4 / (8 powr 2 * 0.35 powr 0.5) *
        sqrt (mass * (8 * rho_air * g /
           (pi * (area / ((pi / 4) * diaSpec\<^sup>2)) powr (1 - k) * (nu_air * rho_air)\<^sup>2)))) - 1)\<^sup>2)
       / (rho_air * diaSpec)"
proof -
  define D where "D = pi * (area / ((pi / 4) * diaSpec\<^sup>2)) powr (1 - k) * (nu_air * rho_air)\<^sup>2"
  define c :: real where "c = 4 / (8 powr 2 * 0.35 powr 0.5)"
  have D: "0 \<le> D" unfolding D_def by (intro mult_nonneg_nonneg) auto
  have c: "0 \<le> c" unfolding c_def by (intro divide_nonneg_nonneg mult_nonneg_nonneg) auto
  have X: "8 * rho_air * mass * g / D = mass * (8 * rho_air * g / D)" by simp
  have X0: "0 \<le> mass * (8 * rho_air * g / D)"
    using assms D by (intro mult_nonneg_nonneg divide_nonneg_nonneg) auto
  have r: "4 * x / (8 powr 2 * 0.35 powr 0.5) = c * x" for x :: real
    by (simp add: c_def)
  have "(1 + c * (mass * (8 * rho_air * g / D)) powr 0.5) powr 0.5 - 1 =
      sqrt (1 + c * sqrt (mass * (8 * rho_air * g / D))) - 1"
    using c X0 by (rule bracket_powr)
  then show ?thesis
    unfolding HeymsfieldWestbrook2010_def Let_def D_def [symmetric] X r c_def [symmetric] by simp
qed

lemma HeymsfieldWestbrook2010_pos_mono:
  assumes "0 < g" "0 < rho_air" "0 < nu_air" "0 < diam" "0 < area" "0 < mass" "mass < mass'"
  shows "0 < HeymsfieldWestbrook2010 g diam mass area rho_air nu_air k"
    and "HeymsfieldWestbrook2010 g diam mass area rho_air nu_air k <
         HeymsfieldWestbrook2010 g diam mass' area rho_air nu_air k"
proof -
  define K where "K = 8 * rho_air * g /
           (pi * (area / ((pi / 4) * diam\<^sup>2)) powr (1 - k) * (nu_air * rho_air)\<^sup>2)"
  define c :: real where "c = 4 / (8 powr 2 * 0.35 powr 0.5)"
  have q: "0 < area / (pi / 4 * diam\<^sup>2)" using assms by simp
  have K: "0 < K" unfolding K_def using assms q by (intro divide_pos_pos mult_pos_pos) auto
  have c: "0 < c" unfolding c_def by (intro divide_pos_pos mult_pos_pos) auto
  have X: "0 < mass * K" "mass * K < mass' * K" using assms K by auto
  have e: "HeymsfieldWestbrook2010 g diam m area rho_air nu_air k =
      nu_air * rho_air * (0.25 * 8\<^sup>2 * (sqrt (1 + c * sqrt (m * K)) - 1)\<^sup>2) / (rho_air * diam)"
    if "0 \<le> m" for m
    using HeymsfieldWestbrook2010_unfold [of g rho_air m diam area nu_air k] that assms
    by (simp add: K_def c_def)
  have p: "0 < (sqrt (1 + c * sqrt (mass * K)) - 1)\<^sup>2"
    using c X by (intro bracket_sq_pos) auto
  have m: "(sqrt (1 + c * sqrt (mass * K)) - 1)\<^sup>2 < (sqrt (1 + c * sqrt (mass' * K)) - 1)\<^sup>2"
    using c X by (intro bracket_sq_mono) auto
  have s: "0 < nu_air * rho_air" "0 < rho_air * diam" using assms by auto
  show "0 < HeymsfieldWestbrook2010 g diam mass area rho_air nu_air k"
    using p s assms by (simp add: e)
  show "HeymsfieldWestbrook2010 g diam mass area rho_air nu_air k <
         HeymsfieldWestbrook2010 g diam mass' area rho_air nu_air k"
    using m s assms by (simp add: e divide_strict_right_mono)
qed

subsection \<open>Khvorostyanov and Curry 2005\<close>

text \<open>
  The squared velocity is proportional to \<open>mass * psi / (1 + 2 / bracket)\<^sup>2\<close>: the drag
  coefficient is \<open>co * (1 + 2 / bracket)\<^sup>2 / psi\<close>, the first factor
  \<open>z * (1 + z\<^sup>2) / (1 + 1.6 * z\<^sup>2)\<close> increases with \<open>z\<close>, and the bracket increases
  with the Best number.
\<close>

lemma zpsi_mono:
  fixes z1 z2 :: real
  assumes "0 < z1" "z1 < z2"
  shows "z1 * (1 + z1\<^sup>2) / (1 + 1.6 * z1\<^sup>2) < z2 * (1 + z2\<^sup>2) / (1 + 1.6 * z2\<^sup>2)"
proof -
  have z2: "0 < z2" using assms by linarith
  have "0 < 1 + (z1 - z2)\<^sup>2 + 1.4 * (z1 * z2) + 1.6 * (z1\<^sup>2 * z2\<^sup>2)"
    using assms z2 by (intro add_pos_nonneg add_pos_pos mult_pos_pos) auto
  then have "0 < (z2 - z1) * (1 + (z1 - z2)\<^sup>2 + 1.4 * (z1 * z2) + 1.6 * (z1\<^sup>2 * z2\<^sup>2))"
    using assms by (intro mult_pos_pos) auto
  also have "\<dots> = z2 * (1 + z2\<^sup>2) * (1 + 1.6 * z1\<^sup>2) - z1 * (1 + z1\<^sup>2) * (1 + 1.6 * z2\<^sup>2)"
    by (simp add: power2_eq_square field_simps)
  finally have k: "z1 * (1 + z1\<^sup>2) * (1 + 1.6 * z2\<^sup>2) - z2 * (1 + z2\<^sup>2) * (1 + 1.6 * z1\<^sup>2) < 0"
    by linarith
  have d: "0 < 1 + 1.6 * z1\<^sup>2" "0 < 1 + 1.6 * z2\<^sup>2"
    by (intro add_pos_nonneg; simp)+
  then have "0 < (1 + 1.6 * z1\<^sup>2) * (1 + 1.6 * z2\<^sup>2)" by (intro mult_pos_pos)
  with k have "(z1 * (1 + z1\<^sup>2) * (1 + 1.6 * z2\<^sup>2) - z2 * (1 + z2\<^sup>2) * (1 + 1.6 * z1\<^sup>2))
       / ((1 + 1.6 * z1\<^sup>2) * (1 + 1.6 * z2\<^sup>2)) < 0"
    by (rule divide_neg_pos)
  moreover have "1 + 1.6 * z1\<^sup>2 \<noteq> 0" "1 + 1.6 * z2\<^sup>2 \<noteq> 0" using d by auto
  ultimately show ?thesis by (subst frac_less_eq) assumption+
qed

lemma zpsi_pos:
  fixes z :: real
  assumes "0 < z"
  shows "0 < z * (1 + z\<^sup>2) / (1 + 1.6 * z\<^sup>2)"
  using assms by (intro divide_pos_pos mult_pos_pos add_pos_nonneg) auto

lemma kc05_drag_root:
  fixes d b :: real
  assumes "0 < d" "0 < b"
  shows "d / sqrt (0.25 * d\<^sup>2 * b\<^sup>2) = 2 / b"
proof -
  have "0.25 * d\<^sup>2 * b\<^sup>2 = (0.5 * d * b)\<^sup>2" by (simp add: power2_eq_square)
  moreover have "0 \<le> 0.5 * d * b" using assms by simp
  ultimately have "sqrt (0.25 * d\<^sup>2 * b\<^sup>2) = 0.5 * d * b"
    using real_sqrt_abs [of "0.5 * d * b"] by (simp only: abs_of_nonneg)
  then have "d / sqrt (0.25 * d\<^sup>2 * b\<^sup>2) = d / (0.5 * d * b)" by (simp only:)
  also have "\<dots> = 2 / b" using assms by (simp add: field_simps)
  finally show ?thesis .
qed

lemma kc05_velocity_arg:
  fixes m kap kap2 r co t u w X0i :: real
  assumes "0 < m" "0 < kap" "0 < kap2" "0 < r" "0 < co" "0 < t" "0 < u" "0 < w" "0 < X0i"
  shows "2 * (m * kap) / (r * (co * t / (u / w))) =
         2 * kap / (r * co * kap2 * X0i) * ((m * kap2 * X0i) * u / w * (1 / t))"
  using assms by (simp add: field_simps)

lemma kc05_general:
  fixes d co X0i kap kap2 r m m' :: real
  assumes "0 < d" "0 < co" "0 < X0i" "0 < kap" "0 < kap2" "0 < r" "0 < m" "m < m'"
  defines "Cd \<equiv> \<lambda>X. co * (1 + d / sqrt (0.25 * d\<^sup>2 * (sqrt (1 + 4 / (d\<^sup>2 * sqrt co) * sqrt X) - 1)\<^sup>2))\<^sup>2
                      / ((1 + (X * X0i)\<^sup>2) / (1 + 1.6 * (X * X0i)\<^sup>2))"
  shows "0 < sqrt (2 * (m * kap) / (r * Cd (m * kap2)))"
    and "sqrt (2 * (m * kap) / (r * Cd (m * kap2))) < sqrt (2 * (m' * kap) / (r * Cd (m' * kap2)))"
proof -
  define c1 where "c1 = 4 / (d\<^sup>2 * sqrt co)"
  define b where "b = (\<lambda>n. sqrt (1 + c1 * sqrt (n * kap2)) - 1)"
  define P where "P = (\<lambda>n. (n * kap2 * X0i) * (1 + (n * kap2 * X0i)\<^sup>2) / (1 + 1.6 * (n * kap2 * X0i)\<^sup>2))"
  define Q where "Q = (\<lambda>n. 1 / (1 + 2 / b n)\<^sup>2)"
  define A where "A = 2 * kap / (r * co * kap2 * X0i)"
  have c1: "0 < c1" unfolding c1_def using assms by (intro divide_pos_pos mult_pos_pos) auto
  have m': "0 < m'" using assms by linarith
  have bpos: "0 < b n" if "0 < n" for n
    unfolding b_def using c1 that assms by (intro bracket_pos mult_pos_pos)
  have bmono: "b m < b m'"
    unfolding b_def using c1 assms by (intro bracket_mono) auto
  have A: "0 < A" unfolding A_def using assms by (intro divide_pos_pos mult_pos_pos) auto
  have Ppos: "0 < P n" if "0 < n" for n
    unfolding P_def using that assms by (intro zpsi_pos mult_pos_pos)
  have Pmono: "P m < P m'"
    unfolding P_def using assms by (intro zpsi_mono mult_pos_pos) auto
  have tpos: "0 < (1 + 2 / b n)\<^sup>2" if "0 < n" for n
    using bpos [OF that] by (intro zero_less_power add_pos_pos) auto
  have Qpos: "0 < Q n" if "0 < n" for n
    unfolding Q_def using tpos [OF that] by simp
  have "2 / b m' < 2 / b m"
    using bmono bpos [OF \<open>0 < m\<close>] by (intro divide_strict_left_mono mult_pos_pos) (auto intro: bpos m')
  then have "1 + 2 / b m' < 1 + 2 / b m" by simp
  moreover have "0 \<le> 1 + 2 / b m'" using bpos [OF m'] by (intro add_nonneg_nonneg) auto
  ultimately have "(1 + 2 / b m')\<^sup>2 < (1 + 2 / b m)\<^sup>2"
    by (intro power_strict_mono) auto
  then have Qmono: "Q m < Q m'"
    unfolding Q_def using tpos [OF \<open>0 < m\<close>] tpos [OF m']
    by (intro divide_strict_left_mono mult_pos_pos) auto
  have arg: "2 * (n * kap) / (r * Cd (n * kap2)) = A * (P n * Q n)" if "0 < n" for n
  proof -
    have X: "0 < n * kap2" using that assms by simp
    have "d / sqrt (0.25 * d\<^sup>2 * (b n)\<^sup>2) = 2 / b n"
      using \<open>0 < d\<close> bpos [OF that] by (rule kc05_drag_root)
    then have "Cd (n * kap2) = co * (1 + 2 / b n)\<^sup>2 /
        ((1 + (n * kap2 * X0i)\<^sup>2) / (1 + 1.6 * (n * kap2 * X0i)\<^sup>2))"
      unfolding Cd_def b_def c1_def by simp
    moreover have "0 < 1 + (n * kap2 * X0i)\<^sup>2" "0 < 1 + 1.6 * (n * kap2 * X0i)\<^sup>2"
      by (intro add_pos_nonneg; simp)+
    ultimately show ?thesis
      unfolding A_def P_def Q_def
      using kc05_velocity_arg [of n kap kap2 r co "(1 + 2 / b n)\<^sup>2"
          "1 + (n * kap2 * X0i)\<^sup>2" "1 + 1.6 * (n * kap2 * X0i)\<^sup>2" X0i] that assms tpos [OF that]
      by simp
  qed
  have "0 < A * (P m * Q m)" using A Ppos Qpos assms by (intro mult_pos_pos) auto
  then show "0 < sqrt (2 * (m * kap) / (r * Cd (m * kap2)))"
    using arg [OF \<open>0 < m\<close>] by simp
  have "P m * Q m < P m' * Q m'"
    using Pmono Qmono Ppos [OF \<open>0 < m\<close>] Qpos [OF \<open>0 < m\<close>]
    by (intro mult_strict_mono) auto
  then have "A * (P m * Q m) < A * (P m' * Q m')" using A by simp
  then show "sqrt (2 * (m * kap) / (r * Cd (m * kap2))) < sqrt (2 * (m' * kap) / (r * Cd (m' * kap2)))"
    using arg [OF \<open>0 < m\<close>] arg [OF m'] by simp
qed

lemma KhvorostyanovCurry2005_pos_mono:
  assumes "0 < g" "0 < rho_air" "rho_air < rho_ice" "0 < nu_air" "0 < diam" "0 < area"
    "0 < mass" "mass < mass'"
  shows "0 < KhvorostyanovCurry2005 g rho_ice diam mass area rho_air nu_air smooth"
    and "KhvorostyanovCurry2005 g rho_ice diam mass area rho_air nu_air smooth <
         KhvorostyanovCurry2005 g rho_ice diam mass' area rho_air nu_air smooth"
proof -
  define kap where "kap = g * (1 - rho_air / rho_ice)"
  define kap2 where "kap2 = 2 * kap * rho_air * diam\<^sup>2 / (area * (nu_air * rho_air)\<^sup>2)"
  define r where "r = rho_air * area"
  have ice: "0 < rho_ice" using assms by linarith
  have "rho_air / rho_ice < 1" using assms ice by simp
  then have kap: "0 < kap" unfolding kap_def using assms by (intro mult_pos_pos) auto
  have kap2: "0 < kap2" unfolding kap2_def using assms kap by (intro divide_pos_pos mult_pos_pos) auto
  have r: "0 < r" unfolding r_def using assms by simp
  have m': "0 < mass'" using assms by linarith
  have F: "\<bar>n * g - rho_air * (n / rho_ice) * g\<bar> = n * kap" if "0 < n" for n
  proof -
    have "n * g - rho_air * (n / rho_ice) * g = n * kap"
      by (simp add: kap_def algebra_simps)
    moreover have "0 \<le> n * kap" using that kap by simp
    ultimately show ?thesis by simp
  qed
  have X: "2 * (n * kap) * rho_air * diam\<^sup>2 / (area * (nu_air * rho_air)\<^sup>2) = n * kap2" for n
    by (simp add: kap2_def)
  have e: "KhvorostyanovCurry2005 g rho_ice diam n area rho_air nu_air smooth =
      sqrt (2 * (n * kap) / (r * (if smooth then X2Cd_kc05smooth (n * kap2)
                                   else X2Cd_kc05rough (n * kap2))))" if "0 < n" for n
    unfolding KhvorostyanovCurry2005_def Let_def F [OF that] X r_def ..
  show "0 < KhvorostyanovCurry2005 g rho_ice diam mass area rho_air nu_air smooth"
  proof (cases smooth)
    case True
    show ?thesis
      unfolding e [OF \<open>0 < mass\<close>] X2Cd_kc05smooth_def Let_def using True
      using kc05_general(1) [of "9.06" "0.292" "1 / 6700000" kap kap2 r mass mass'] kap kap2 r assms
      by simp
  next
    case False
    show ?thesis
      unfolding e [OF \<open>0 < mass\<close>] X2Cd_kc05rough_def Let_def using False
      using kc05_general(1) [of "5.83" "0.6" "35714285714285714285 / 10 ^ 26" kap kap2 r mass mass']
        kap kap2 r assms
      by simp
  qed
  show "KhvorostyanovCurry2005 g rho_ice diam mass area rho_air nu_air smooth <
         KhvorostyanovCurry2005 g rho_ice diam mass' area rho_air nu_air smooth"
  proof (cases smooth)
    case True
    show ?thesis
      unfolding e [OF \<open>0 < mass\<close>] e [OF m'] X2Cd_kc05smooth_def Let_def using True
      using kc05_general(2) [of "9.06" "0.292" "1 / 6700000" kap kap2 r mass mass'] kap kap2 r assms
      by simp
  next
    case False
    show ?thesis
      unfolding e [OF \<open>0 < mass\<close>] e [OF m'] X2Cd_kc05rough_def Let_def using False
      using kc05_general(2) [of "5.83" "0.6" "35714285714285714285 / 10 ^ 26" kap kap2 r mass mass']
        kap kap2 r assms
      by simp
  qed
qed

subsection \<open>Boehm 1992\<close>

text \<open>
  With \<open>T = X / C_DP_prim\<close> the Reynolds number of \<^verbatim>\<open>Boehm1992\<close> is
  \<open>sqrt T * H beta\<close>, where \<open>H b = b / (b + 2) * (1 + 2 * b * exp (- b * gama_small) /
  ((2 + b) * (1 + b)))\<close>. \<open>T\<close> and \<open>beta\<close> increase with \<open>X\<close>; \<open>H\<close> increases on
  the positive reals, for every \<open>gama_small\<close>, because its derivative is positive there.
\<close>

lemma boehm_factor_deriv:
  fixes x gam :: real
  assumes "0 < x"
  shows "((\<lambda>x. x / (x + 2) * (1 + (2 * x * exp (- x * gam)) / ((2 + x) * (1 + x))))
           has_real_derivative
         2 / (x + 2)\<^sup>2 * (1 - exp (- x * gam) * x *
            (gam * x * (2 + x) * (1 + x) + x\<^sup>2 - 2 * x - 4) / ((2 + x) * (1 + x)\<^sup>2))) (at x)"
proof -
  have nz: "x + 2 \<noteq> 0" "2 + x \<noteq> 0" "1 + x \<noteq> 0" "(2 + x) * (1 + x) \<noteq> 0" using assms by auto
  show ?thesis
    apply (rule derivative_eq_intros refl nz | simp add: nz)+
    using assms
    apply (simp add: divide_simps)
    apply (simp add: power2_eq_square algebra_simps)
    done
qed


lemma boehm_factor_deriv_pos:
  fixes x gam :: real
  assumes "0 < x"
  shows "0 < 2 / (x + 2)\<^sup>2 * (1 - exp (- x * gam) * x *
            (gam * x * (2 + x) * (1 + x) + x\<^sup>2 - 2 * x - 4) / ((2 + x) * (1 + x)\<^sup>2))"
proof -
  define E where "E = exp (- x * gam)"
  define p where "p = gam * x * (2 + x) * (1 + x)"
  define N where "N = p + x\<^sup>2 - 2 * x - 4"
  define Dn where "Dn = (2 + x) * (1 + x)\<^sup>2"
  have E: "0 < E" unfolding E_def by simp
  have Dn: "0 < Dn" unfolding Dn_def using assms by (intro mult_pos_pos zero_less_power) auto
  have key: "E * x * N < Dn"
  proof (cases "N \<le> 0")
    case True
    have "E * x * N \<le> 0" using True E assms by (intro mult_nonneg_nonpos) auto
    with Dn show ?thesis by linarith
  next
    case False
    then have N: "0 < N" by simp
    have q: "0 < (2 + x) * (1 + x)" using assms by (intro mult_pos_pos) auto
    have "(1 + gam * x) * ((2 + x) * (1 + x)) = (2 + x) * (1 + x) + p"
      by (simp add: p_def algebra_simps)
    also have "\<dots> = N + (5 * x + 6)" by (simp add: N_def power2_eq_square algebra_simps)
    also have "\<dots> > 0" using N assms by simp
    finally have "0 < (1 + gam * x) * ((2 + x) * (1 + x))" .
    with q have G: "0 < 1 + gam * x" using zero_less_mult_pos2 by blast
    have "1 + gam * x \<le> exp (gam * x)" by (rule exp_ge_add_one_self)
    moreover have "E * exp (gam * x) = 1" unfolding E_def by (simp add: exp_minus field_simps)
    ultimately have EG: "E * (1 + gam * x) \<le> 1"
      using E by (metis mult_left_mono less_imp_le)
    have "Dn * (1 + gam * x) - x * N = 6 * x\<^sup>2 + 9 * x + 2 + p"
      by (simp add: Dn_def N_def p_def power2_eq_square algebra_simps)
    also have "\<dots> = N + (5 * x\<^sup>2 + 11 * x + 6)" by (simp add: N_def)
    also have "\<dots> > 0" using N assms by (intro add_pos_pos) auto
    finally have "x * N < Dn * (1 + gam * x)" by simp
    then have "E * (x * N) < E * (Dn * (1 + gam * x))" using E by simp
    also have "\<dots> = Dn * (E * (1 + gam * x))" by simp
    also have "\<dots> \<le> Dn * 1" using EG Dn by (intro mult_left_mono) auto
    finally show ?thesis by (simp add: mult.assoc)
  qed
  have "E * x * N / Dn < 1" using key Dn by simp
  then have "0 < 1 - E * x * N / Dn" by simp
  moreover have "0 < 2 / (x + 2)\<^sup>2" using assms by simp
  ultimately have "0 < 2 / (x + 2)\<^sup>2 \<and> 0 < 1 - E * x * N / Dn" by simp
  then have "0 < 2 / (x + 2)\<^sup>2 * (1 - E * x * N / Dn)" by (intro mult_pos_pos) auto
  then show ?thesis unfolding E_def N_def p_def Dn_def .
qed

lemma boehm_factor_mono:
  fixes a b gam :: real
  assumes "0 < a" "a < b"
  shows "a / (a + 2) * (1 + (2 * a * exp (- a * gam)) / ((2 + a) * (1 + a))) <
         b / (b + 2) * (1 + (2 * b * exp (- b * gam)) / ((2 + b) * (1 + b)))"
proof (rule DERIV_pos_imp_increasing [of a b
      "\<lambda>x. x / (x + 2) * (1 + (2 * x * exp (- x * gam)) / ((2 + x) * (1 + x)))"])
  show "a < b" by fact
next
  fix x assume "a \<le> x" "x \<le> b"
  then have x: "0 < x" using assms by linarith
  show "\<exists>y. ((\<lambda>x. x / (x + 2) * (1 + (2 * x * exp (- x * gam)) / ((2 + x) * (1 + x))))
           has_real_derivative y) (at x) \<and> 0 < y"
    using boehm_factor_deriv [OF x, of gam] boehm_factor_deriv_pos [OF x, of gam] by blast
qed

lemma boehm_factor_pos:
  fixes a gam :: real
  assumes "0 < a"
  shows "0 < a / (a + 2) * (1 + (2 * a * exp (- a * gam)) / ((2 + a) * (1 + a)))"
  using assms by (intro mult_pos_pos divide_pos_pos add_pos_pos) auto

lemma drag_ratio_mono:
  fixes y1 y2 :: real
  assumes "0 \<le> y1" "y1 \<le> y2"
  shows "(1 + 1.6 * y1\<^sup>2) / (1 + y1\<^sup>2) \<le> (1 + 1.6 * y2\<^sup>2) / (1 + y2\<^sup>2)"
proof -
  have s: "y1\<^sup>2 \<le> y2\<^sup>2" using assms by (intro power_mono) auto
  have d: "0 < 1 + y1\<^sup>2" "0 < 1 + y2\<^sup>2" by (intro add_pos_nonneg; simp)+
  have "(1 + 1.6 * b) * (1 + a) - (1 + 1.6 * a) * (1 + b) = 0.6 * (b - a)" for a b :: real
    by (simp add: field_simps)
  note i = this [of "y2\<^sup>2" "y1\<^sup>2"]
  have "0 \<le> 0.6 * (y2\<^sup>2 - y1\<^sup>2)" using s by simp
  then have "0 \<le> (1 + 1.6 * y2\<^sup>2) * (1 + y1\<^sup>2) - (1 + 1.6 * y1\<^sup>2) * (1 + y2\<^sup>2)"
    by (simp only: i)
  then have "(1 + 1.6 * y1\<^sup>2) * (1 + y2\<^sup>2) \<le> (1 + 1.6 * y2\<^sup>2) * (1 + y1\<^sup>2)"
    by (simp only: diff_ge_0_iff_ge)
  then show ?thesis using d by (simp add: frac_le_eq divide_le_0_iff mult.commute)
qed


lemma nre0_identity:
  fixes cp t b :: real
  assumes "0 < cp" "0 < b" "b * (b + 2) = cp / 6 / 1 * t"
  shows "6 * 1 / cp * b\<^sup>2 = t * (b / (b + 2))"
proof -
  have "t = 6 * (b * (b + 2)) / cp" using assms(1) by (simp add: assms(3))
  moreover have "b + 2 \<noteq> 0" using assms(2) by simp
  ultimately show ?thesis using assms(1) by (simp add: power2_eq_square)
qed

lemma Boehm1992_core:
  fixes C X0 gs X Y :: real
  assumes "0 < C" "0 < X0" "0 < X" "X < Y"
  defines "Cp \<equiv> \<lambda>X. C * (1 + 1.6 * (X / X0)\<^sup>2) / (1 + (X / X0)\<^sup>2)"
  defines "beta \<equiv> \<lambda>X. sqrt (1 + Cp X / 6 / 1 * sqrt (X / Cp X)) - 1"
  defines "NRe \<equiv> \<lambda>X. 6 * 1 / Cp X * (beta X)\<^sup>2 *
             (1 + (2 * beta X * exp (- beta X * gs)) / ((2 + beta X) * (1 + beta X)))"
  shows "0 < NRe X" and "NRe X < NRe Y"
proof -
  define T where "T = (\<lambda>Z. Z / Cp Z)"
  define w where "w = (\<lambda>Z. Cp Z / 6 / 1 * sqrt (T Z))"
  define Hf where "Hf = (\<lambda>b. b / (b + 2) * (1 + (2 * b * exp (- b * gs)) / ((2 + b) * (1 + b))))"
  have Y: "0 < Y" using assms by linarith
  have d: "0 < 1 + (Z / X0)\<^sup>2" "0 < 1 + 1.6 * (Z / X0)\<^sup>2" for Z
    by (intro add_pos_nonneg; simp)+
  have Cp_pos: "0 < Cp Z" for Z
    unfolding Cp_def using \<open>0 < C\<close> d [of Z] by (intro divide_pos_pos mult_pos_pos)
  have Cp_alt: "Cp Z = C * ((1 + 1.6 * (Z / X0)\<^sup>2) / (1 + (Z / X0)\<^sup>2))" for Z
    unfolding Cp_def by simp
  have Cp_mono: "Cp Z \<le> Cp W" if "0 \<le> Z" "Z \<le> W" for Z W
  proof -
    have "0 \<le> Z / X0" "Z / X0 \<le> W / X0"
      using that \<open>0 < X0\<close> by (simp_all add: divide_right_mono)
    then show ?thesis
      unfolding Cp_alt using \<open>0 < C\<close> by (intro mult_left_mono drag_ratio_mono) auto
  qed
  have T_alt: "T Z = X0 / C * ((Z / X0) * (1 + (Z / X0)\<^sup>2) / (1 + 1.6 * (Z / X0)\<^sup>2))" for Z
  proof -
    have "1 + (Z / X0)\<^sup>2 \<noteq> 0" "1 + 1.6 * (Z / X0)\<^sup>2 \<noteq> 0" using d [of Z] by auto
    then show ?thesis
      unfolding T_def Cp_def using \<open>0 < C\<close> \<open>0 < X0\<close> by simp
  qed
  have T_pos: "0 < T Z" if "0 < Z" for Z
    unfolding T_def using that Cp_pos by simp
  have T_mono: "T Z < T W" if "0 < Z" "Z < W" for Z W
  proof -
    have "0 < Z / X0" "Z / X0 < W / X0"
      using that \<open>0 < X0\<close> by (simp_all add: divide_strict_right_mono)
    then have "(Z / X0) * (1 + (Z / X0)\<^sup>2) / (1 + 1.6 * (Z / X0)\<^sup>2) <
               (W / X0) * (1 + (W / X0)\<^sup>2) / (1 + 1.6 * (W / X0)\<^sup>2)"
      by (rule zpsi_mono)
    moreover have "0 < X0 / C" using \<open>0 < C\<close> \<open>0 < X0\<close> by simp
    ultimately show ?thesis unfolding T_alt by (rule mult_strict_left_mono)
  qed
  have w_pos: "0 < w Z" if "0 < Z" for Z
    unfolding w_def using Cp_pos [of Z] T_pos [OF that] by simp
  have w_mono: "w Z < w W" if "0 < Z" "Z < W" for Z W
  proof -
    have "Cp Z / 6 / 1 \<le> Cp W / 6 / 1" using Cp_mono [of Z W] that by simp
    moreover have "sqrt (T Z) < sqrt (T W)" using T_mono [OF that] by simp
    moreover have "0 < Cp Z / 6 / 1" using Cp_pos [of Z] by simp
    moreover have "0 \<le> sqrt (T Z)" using T_pos [OF that(1)] by simp
    ultimately show ?thesis unfolding w_def by (rule mult_le_less_imp_less)
  qed
  have beta_eq: "beta Z = sqrt (1 + w Z) - 1" for Z
    unfolding beta_def w_def T_def ..
  have beta_pos: "0 < beta Z" if "0 < Z" for Z
    unfolding beta_eq using w_pos [OF that] by simp
  have beta_mono: "beta Z < beta W" if "0 < Z" "Z < W" for Z W
    unfolding beta_eq using w_mono [OF that] by simp
  have NRe_eq: "NRe Z = sqrt (T Z) * Hf (beta Z)" if "0 < Z" for Z
  proof -
    have "0 \<le> 1 + w Z" using w_pos [OF that] by simp
    then have "(beta Z + 1)\<^sup>2 = 1 + w Z" unfolding beta_eq by simp
    then have "beta Z * (beta Z + 2) = Cp Z / 6 / 1 * sqrt (T Z)"
      unfolding w_def by (simp add: power2_eq_square algebra_simps)
    with Cp_pos [of Z] beta_pos [OF that]
    have "6 * 1 / Cp Z * (beta Z)\<^sup>2 = sqrt (T Z) * (beta Z / (beta Z + 2))"
      by (rule nre0_identity)
    then show ?thesis unfolding NRe_def Hf_def by (simp only: mult.assoc)
  qed
  have Hf_pos: "0 < Hf b" if "0 < b" for b
    unfolding Hf_def using that by (rule boehm_factor_pos)
  have Hf_mono: "Hf a < Hf b" if "0 < a" "a < b" for a b
    unfolding Hf_def using that by (rule boehm_factor_mono)
  have sT: "0 < sqrt (T X)" "sqrt (T X) < sqrt (T Y)"
    using T_pos [OF \<open>0 < X\<close>] T_mono [OF \<open>0 < X\<close> \<open>X < Y\<close>] by simp_all
  have sH: "0 < Hf (beta X)" "Hf (beta X) < Hf (beta Y)"
    using Hf_pos [OF beta_pos [OF \<open>0 < X\<close>]]
      Hf_mono [OF beta_pos [OF \<open>0 < X\<close>] beta_mono [OF \<open>0 < X\<close> \<open>X < Y\<close>]] by simp_all
  show "0 < NRe X"
    unfolding NRe_eq [OF \<open>0 < X\<close>] using sT(1) sH(1) by (rule mult_pos_pos)
  show "NRe X < NRe Y"
    unfolding NRe_eq [OF \<open>0 < X\<close>] NRe_eq [OF Y]
    using sT sH by (intro mult_strict_mono) auto
qed

lemma Boehm1992_pos_mono:
  assumes "0 < g" "0 < rho_air" "0 < nu_air" "0 < diam" "0 < area" "0 < mass" "mass < mass'"
  shows "0 < Boehm1992 g diam mass area rho_air nu_air as_ratio"
    and "Boehm1992 g diam mass area rho_air nu_air as_ratio <
         Boehm1992 g diam mass' area rho_air nu_air as_ratio"
proof -
  define q where "q = area / (pi / 4 * diam\<^sup>2)"
  define D where "D = pi * ((nu_air * rho_air)\<^sup>2) * max as_ratio (1 * 1) * max (q powr 0.25) q"
  define C0 where "C0 = max (0.292 * 1 * max (1 * 1) (min (1 * 1.98)
      (3.76 - 8.41 * as_ratio + 9.18 * as_ratio\<^sup>2 - 3.53 * as_ratio ^ 3)))
      (0.492 - 0.2 / sqrt as_ratio)"
  define C where "C = max 1 (q * (1.46 * q - 0.46)) * C0"
  define gs where "gs = (4.5 * 1\<^sup>2 * max as_ratio (1 * 1) - C) / 4 / C"
  define N where "N = (\<lambda>X. 6 * 1 / (C * (1 + 1.6 * (X / 2800000)\<^sup>2) / (1 + (X / 2800000)\<^sup>2)) *
      (sqrt (1 + C * (1 + 1.6 * (X / 2800000)\<^sup>2) / (1 + (X / 2800000)\<^sup>2) / 6 / 1 *
          sqrt (X / (C * (1 + 1.6 * (X / 2800000)\<^sup>2) / (1 + (X / 2800000)\<^sup>2)))) - 1)\<^sup>2 *
      (1 + (2 * (sqrt (1 + C * (1 + 1.6 * (X / 2800000)\<^sup>2) / (1 + (X / 2800000)\<^sup>2) / 6 / 1 *
          sqrt (X / (C * (1 + 1.6 * (X / 2800000)\<^sup>2) / (1 + (X / 2800000)\<^sup>2)))) - 1) *
          exp (- (sqrt (1 + C * (1 + 1.6 * (X / 2800000)\<^sup>2) / (1 + (X / 2800000)\<^sup>2) / 6 / 1 *
          sqrt (X / (C * (1 + 1.6 * (X / 2800000)\<^sup>2) / (1 + (X / 2800000)\<^sup>2)))) - 1) * gs)) /
         ((2 + (sqrt (1 + C * (1 + 1.6 * (X / 2800000)\<^sup>2) / (1 + (X / 2800000)\<^sup>2) / 6 / 1 *
          sqrt (X / (C * (1 + 1.6 * (X / 2800000)\<^sup>2) / (1 + (X / 2800000)\<^sup>2)))) - 1)) *
          (1 + (sqrt (1 + C * (1 + 1.6 * (X / 2800000)\<^sup>2) / (1 + (X / 2800000)\<^sup>2) / 6 / 1 *
          sqrt (X / (C * (1 + 1.6 * (X / 2800000)\<^sup>2) / (1 + (X / 2800000)\<^sup>2)))) - 1)))))"
  have e: "Boehm1992 g diam n area rho_air nu_air as_ratio =
      N (8 * n * g * rho_air / D) * (nu_air * rho_air) / diam / rho_air" for n
    unfolding Boehm1992_def Let_def N_def gs_def C_def C0_def D_def q_def ..
  have qpos: "0 < q" unfolding q_def using assms by simp
  have "0 < max (q powr 0.25) q" using qpos by (simp add: less_max_iff_disj)
  moreover have "0 < max as_ratio (1 * 1)" by (simp add: less_max_iff_disj)
  ultimately have D: "0 < D" unfolding D_def using assms by (intro mult_pos_pos) auto
  have "(0::real) < 0.292 * 1 * max (1 * 1) (min (1 * 1.98)
      (3.76 - 8.41 * as_ratio + 9.18 * as_ratio\<^sup>2 - 3.53 * as_ratio ^ 3))"
    by (intro mult_pos_pos) (auto simp: less_max_iff_disj)
  then have C0: "0 < C0" unfolding C0_def by (simp only: less_max_iff_disj) simp
  have "(0::real) < max 1 (q * (1.46 * q - 0.46))" by (simp add: less_max_iff_disj)
  then have C: "0 < C" unfolding C_def using C0 by (rule mult_pos_pos)
  have X: "0 < 8 * mass * g * rho_air / D" "8 * mass * g * rho_air / D < 8 * mass' * g * rho_air / D"
    using assms D by (auto intro!: divide_pos_pos mult_pos_pos divide_strict_right_mono)
  have Npos: "0 < N (8 * mass * g * rho_air / D)"
    unfolding N_def by (rule Boehm1992_core(1) [OF C _ X]) simp
  have Nmono: "N (8 * mass * g * rho_air / D) < N (8 * mass' * g * rho_air / D)"
    unfolding N_def by (rule Boehm1992_core(2) [OF C _ X]) simp
  have s: "0 < nu_air * rho_air" using assms by simp
  show "0 < Boehm1992 g diam mass area rho_air nu_air as_ratio"
    unfolding e using Npos s assms by (intro divide_pos_pos mult_pos_pos)
  show "Boehm1992 g diam mass area rho_air nu_air as_ratio <
         Boehm1992 g diam mass' area rho_air nu_air as_ratio"
    unfolding e using Nmono s assms
    by (intro divide_strict_right_mono mult_strict_right_mono)
qed

subsection \<open>The four models together\<close>

text \<open>
  Claim C9. For positive diameter, mass and area, at a positive air density below the density
  of ice and a positive viscosity (the standard values among them), each of
  \<^verbatim>\<open>Boehm1992\<close>, \<^verbatim>\<open>Boehm1989\<close>, \<^verbatim>\<open>HeymsfieldWestbrook2010\<close> and
  \<^verbatim>\<open>KhvorostyanovCurry2005\<close> returns a positive velocity, and for the same diameter and
  area a larger mass gives a strictly larger velocity; for every aspect-ratio factor, every
  tuning coefficient and both drag models.
\<close>

theorem fall_speed_positive_increasing:
  assumes "0 < g" "0 < rho_air" "rho_air < rho_ice" "0 < nu_air" "0 < diam" "0 < area"
    "0 < mass" "mass < mass'"
  shows "0 < Boehm1992 g diam mass area rho_air nu_air as_ratio \<and>
         Boehm1992 g diam mass area rho_air nu_air as_ratio <
           Boehm1992 g diam mass' area rho_air nu_air as_ratio \<and>
         0 < Boehm1989 g diam mass area rho_air nu_air \<and>
         Boehm1989 g diam mass area rho_air nu_air < Boehm1989 g diam mass' area rho_air nu_air \<and>
         0 < HeymsfieldWestbrook2010 g diam mass area rho_air nu_air k \<and>
         HeymsfieldWestbrook2010 g diam mass area rho_air nu_air k <
           HeymsfieldWestbrook2010 g diam mass' area rho_air nu_air k \<and>
         0 < KhvorostyanovCurry2005 g rho_ice diam mass area rho_air nu_air smooth \<and>
         KhvorostyanovCurry2005 g rho_ice diam mass area rho_air nu_air smooth <
           KhvorostyanovCurry2005 g rho_ice diam mass' area rho_air nu_air smooth"
  using Boehm1992_pos_mono [of g rho_air nu_air diam area mass mass' as_ratio]
    Boehm1989_pos_mono [of g rho_air nu_air diam area mass mass']
    HeymsfieldWestbrook2010_pos_mono [of g rho_air nu_air diam area mass mass' k]
    KhvorostyanovCurry2005_pos_mono [of g rho_air rho_ice nu_air diam area mass mass' smooth]
    assms
  by blast

theorem fall_speed_positive_increasing_witness:
  "(0::real) < 9.81 \<and> 0 < standard_air_density \<and> standard_air_density < 917 \<and>
   (0::real) < 15 / 10 ^ 6 \<and> (0::real) < 1 / 1000 \<and> (0::real) < 1 / 10 ^ 7 \<and>
   (0::real) < 1 / 10 ^ 6 \<and> (1::real) / 10 ^ 6 < 2 / 10 ^ 6 \<and>
   0 < Boehm1992 9.81 (1 / 1000) (1 / 10 ^ 6) (1 / 10 ^ 7) standard_air_density (15 / 10 ^ 6) 1 \<and>
   Boehm1992 9.81 (1 / 1000) (1 / 10 ^ 6) (1 / 10 ^ 7) standard_air_density (15 / 10 ^ 6) 1 <
     Boehm1992 9.81 (1 / 1000) (2 / 10 ^ 6) (1 / 10 ^ 7) standard_air_density (15 / 10 ^ 6) 1 \<and>
   0 < Boehm1989 9.81 (1 / 1000) (1 / 10 ^ 6) (1 / 10 ^ 7) standard_air_density (15 / 10 ^ 6) \<and>
   Boehm1989 9.81 (1 / 1000) (1 / 10 ^ 6) (1 / 10 ^ 7) standard_air_density (15 / 10 ^ 6) <
     Boehm1989 9.81 (1 / 1000) (2 / 10 ^ 6) (1 / 10 ^ 7) standard_air_density (15 / 10 ^ 6) \<and>
   0 < HeymsfieldWestbrook2010 9.81 (1 / 1000) (1 / 10 ^ 6) (1 / 10 ^ 7) standard_air_density
         (15 / 10 ^ 6) 0.5 \<and>
   HeymsfieldWestbrook2010 9.81 (1 / 1000) (1 / 10 ^ 6) (1 / 10 ^ 7) standard_air_density
         (15 / 10 ^ 6) 0.5 <
     HeymsfieldWestbrook2010 9.81 (1 / 1000) (2 / 10 ^ 6) (1 / 10 ^ 7) standard_air_density
         (15 / 10 ^ 6) 0.5 \<and>
   0 < KhvorostyanovCurry2005 9.81 917 (1 / 1000) (1 / 10 ^ 6) (1 / 10 ^ 7) standard_air_density
         (15 / 10 ^ 6) False \<and>
   KhvorostyanovCurry2005 9.81 917 (1 / 1000) (1 / 10 ^ 6) (1 / 10 ^ 7) standard_air_density
         (15 / 10 ^ 6) False <
     KhvorostyanovCurry2005 9.81 917 (1 / 1000) (2 / 10 ^ 6) (1 / 10 ^ 7) standard_air_density
         (15 / 10 ^ 6) False"
proof -
  have h: "(0::real) < 9.81" "0 < standard_air_density" "standard_air_density < 917"
    "(0::real) < 15 / 10 ^ 6" "(0::real) < 1 / 1000" "(0::real) < 1 / 10 ^ 7"
    "(0::real) < 1 / 10 ^ 6" "(1::real) / 10 ^ 6 < 2 / 10 ^ 6"
    by (simp_all add: standard_air_density_def)
  from fall_speed_positive_increasing [OF h, of 1 "0.5" False] h show ?thesis by blast
qed

end
